theory Spec2Isabelle
  imports Main "HOL-Library.Word"
begin

unbundle bit_operations_syntax

section \<open>The platform the loader runs on\<close>

text \<open>
  The code of \<^verbatim>\<open>OpenGL.cpp\<close> computes nothing of its own: it asks Windows and the
  graphics driver for addresses and calls through them. Every pointer-sized value of
  the source (\<^verbatim>\<open>void *\<close>, \<^verbatim>\<open>HMODULE\<close>, \<^verbatim>\<open>HDC\<close>, \<^verbatim>\<open>HWND\<close>, a function pointer) is a
  64-bit word, \<^verbatim>\<open>nullptr\<close> is \<open>0\<close>, and \<^verbatim>\<open>reinterpret_cast<void*>(-1)\<close> is the word
  \<open>- 1\<close>, whose bits are all set.

  The platform is a record of functions, one per native service the source calls.
  Within one operation of the source a service answers as a function of its
  arguments. What depends on the state of the operating system or of the driver is
  covered by quantifying over the record, and two operations in sequence are each
  given a record of their own.
  \<^verbatim>\<open>BOOL\<close> and \<^verbatim>\<open>int\<close> results are integers, tested against \<open>0\<close> as C++ does.
  The arguments and results of the wrapped entry points are values of a type \<open>'v\<close>
  that the wrappers never inspect; \<open>'p\<close> is \<^verbatim>\<open>PIXELFORMATDESCRIPTOR\<close>.
\<close>

type_synonym addr = "64 word"

record ('v, 'p) platform =
  LoadLibraryA :: "string \<Rightarrow> addr"
  GetProcAddress :: "addr \<Rightarrow> string \<Rightarrow> addr"
  call_PFNWGLGETPROCADDRESSPROC :: "addr \<Rightarrow> string \<Rightarrow> addr"
  GetDC :: "addr \<Rightarrow> addr"
  ChoosePixelFormat :: "addr \<Rightarrow> 'p \<Rightarrow> int"
  SetPixelFormat :: "addr \<Rightarrow> int \<Rightarrow> 'p \<Rightarrow> int"
  gdi_SwapBuffers :: "addr \<Rightarrow> int"
  call_entry_point :: "addr \<Rightarrow> 'v list \<Rightarrow> 'v"

text \<open>
  What an operation did is recorded as the list of the native calls it made, in order.
  \<open>EvResolve\<close> marks an entry into \<^verbatim>\<open>Loader::getProcAddress\<close>, which may return
  without any native call.
\<close>

datatype ('v, 'p) event =
    EvLoadLibraryA string
  | EvGetProcAddress addr string
  | EvResolve string
  | EvExtensionQuery addr string
  | EvGetDC addr
  | EvChoosePixelFormat addr 'p
  | EvSetPixelFormat addr int 'p
  | EvGdiSwapBuffers addr
  | EvCallThrough addr "'v list"

section \<open>Loader\<close>

record Loader =
  m_hLibGL :: addr
  m_pfnWglGetProcAddress :: addr

text \<open>
  \<^verbatim>\<open>Loader::Loader()\<close>: both members start as \<^verbatim>\<open>nullptr\<close>; the extension-query function
  is looked up only when the library was loaded.
\<close>

definition Loader_ctor :: "('v, 'p) platform \<Rightarrow> Loader \<times> ('v, 'p) event list" where
  "Loader_ctor env =
     (let hLibGL = LoadLibraryA env ''opengl32.dll'' in
      if hLibGL \<noteq> 0
      then (\<lparr>m_hLibGL = hLibGL,
             m_pfnWglGetProcAddress = GetProcAddress env hLibGL ''wglGetProcAddress''\<rparr>,
            [EvLoadLibraryA ''opengl32.dll'', EvGetProcAddress hLibGL ''wglGetProcAddress''])
      else (\<lparr>m_hLibGL = 0, m_pfnWglGetProcAddress = 0\<rparr>,
            [EvLoadLibraryA ''opengl32.dll'']))"

text \<open>\<^verbatim>\<open>Loader::getProcAddress\<close>, with the five comparisons of the source in their order.\<close>

definition getProcAddress ::
  "Loader \<Rightarrow> ('v, 'p) platform \<Rightarrow> string \<Rightarrow> addr \<times> ('v, 'p) event list" where
  "getProcAddress L env pszName =
     (if m_pfnWglGetProcAddress L \<noteq> 0
      then
        (let pfn = call_PFNWGLGETPROCADDRESSPROC env (m_pfnWglGetProcAddress L) pszName in
         if pfn = 0 \<or> pfn = 1 \<or> pfn = 2 \<or> pfn = 3 \<or> pfn = - 1
         then (GetProcAddress env (m_hLibGL L) pszName,
               [EvResolve pszName,
                EvExtensionQuery (m_pfnWglGetProcAddress L) pszName,
                EvGetProcAddress (m_hLibGL L) pszName])
         else (pfn,
               [EvResolve pszName,
                EvExtensionQuery (m_pfnWglGetProcAddress L) pszName]))
      else (0, [EvResolve pszName]))"

section \<open>Program state\<close>

text \<open>
  \<^verbatim>\<open>Loader::instance()\<close> holds the loader in a function-local static, constructed by the
  first call. Each gl function keeps its pointer in a function-local static of its own
  (\<^verbatim>\<open>pfnCullFace\<close>, \<^verbatim>\<open>pfnGetError\<close>, ...), initialised to \<^verbatim>\<open>nullptr\<close>; the state maps the
  name of each such variable to its value.
\<close>

record state =
  theInstance :: "Loader option"
  statics :: "string \<Rightarrow> addr"

definition initial_state :: state where
  "initial_state = \<lparr>theInstance = None, statics = (\<lambda>var. 0)\<rparr>"

definition Loader_instance ::
  "('v, 'p) platform \<Rightarrow> state \<Rightarrow> Loader \<times> state \<times> ('v, 'p) event list" where
  "Loader_instance env s =
     (case theInstance s of
        Some L \<Rightarrow> (L, s, [])
      | None \<Rightarrow>
          (case Loader_ctor env of
             (L, t) \<Rightarrow> (L, s\<lparr>theInstance := Some L\<rparr>, t)))"

text \<open>
  The expression \<^verbatim>\<open>Loader::instance().getProcAddress(name)\<close>, which the macro
  \<^verbatim>\<open>LOAD_ENTRYPOINT\<close> and \<^verbatim>\<open>OpenGLContext::wglGetProcAddress\<close> both evaluate, on its own:
  the address it yields, the state after it and the calls it makes.
\<close>

definition resolve ::
  "('v, 'p) platform \<Rightarrow> state \<Rightarrow> string \<Rightarrow> addr \<times> state \<times> ('v, 'p) event list" where
  "resolve env s name =
     (case Loader_instance env s of
        (L, s', t) \<Rightarrow>
          (case getProcAddress L env name of
             (p, t') \<Rightarrow> (p, s', t @ t')))"

text \<open>
  Modelled from the spec: the class \<^verbatim>\<open>OpenGLContext\<close> is declared in the module
  interface, which is not among the sources; only its member functions are defined in
  \<^verbatim>\<open>OpenGL.cpp\<close>. Its pointer members (\<^verbatim>\<open>m_pfnWglCreateContext\<close>, ...) are the cache
  entries of the specification, one per wrapped entry point, "initially empty".
\<close>

record OpenGLContext =
  members :: "string \<Rightarrow> addr"

definition new_OpenGLContext :: OpenGLContext where
  "new_OpenGLContext = \<lparr>members = (\<lambda>var. 0)\<rparr>"

section \<open>The per-symbol wrappers\<close>

text \<open>
  \<^verbatim>\<open>assert\<close> is compiled in a debug build and compiled out when \<^verbatim>\<open>NDEBUG\<close> is defined.
  A failed assertion aborts the process. A call through a null function pointer has no
  defined behaviour in C++; the model ends the process there as well.
\<close>

datatype build = Debug | Release

datatype failure = AssertionFailed | NullCall

text \<open>
  The macro \<^verbatim>\<open>LOAD_ENTRYPOINT(name, var, type)\<close>. The result holds the assertion's
  verdict, the value of \<^verbatim>\<open>var\<close> after the macro, the state and the calls made.
\<close>

definition LOAD_ENTRYPOINT ::
  "build \<Rightarrow> ('v, 'p) platform \<Rightarrow> string \<Rightarrow> addr \<Rightarrow> state \<Rightarrow>
     failure option \<times> addr \<times> state \<times> ('v, 'p) event list" where
  "LOAD_ENTRYPOINT b env name var s =
     (if var = 0
      then
        (case Loader_instance env s of
           (L, s', t) \<Rightarrow>
             (case getProcAddress L env name of
                (p, t') \<Rightarrow>
                  (if b = Debug \<and> p = 0 then Some AssertionFailed else None,
                   p, s', t @ t')))
      else (None, var, s, []))"

text \<open>The expression \<^verbatim>\<open>var(args...)\<close>: a call through the pointer \<^verbatim>\<open>var\<close>.\<close>

definition call_through ::
  "('v, 'p) platform \<Rightarrow> addr \<Rightarrow> 'v list \<Rightarrow> (failure + 'v) \<times> ('v, 'p) event list" where
  "call_through env var args =
     (if var = 0 then (Inl NullCall, [])
      else (Inr (call_entry_point env var args), [EvCallThrough var args]))"

text \<open>
  The body shared by the wrappers: the macro, then \<^verbatim>\<open>return var(args...);\<close> when
  \<open>returns\<close> holds and \<^verbatim>\<open>var(args...);\<close> in a \<^verbatim>\<open>void\<close> function. The result is the
  value returned (or the failure that ended the process), the value of \<^verbatim>\<open>var\<close>, the
  state and the calls made.
\<close>

definition wrapped ::
  "build \<Rightarrow> ('v, 'p) platform \<Rightarrow> string \<Rightarrow> bool \<Rightarrow> 'v list \<Rightarrow> addr \<Rightarrow> state \<Rightarrow>
     (failure + 'v option) \<times> addr \<times> state \<times> ('v, 'p) event list" where
  "wrapped b env name returns args var s =
     (case LOAD_ENTRYPOINT b env name var s of
        (Some f, var', s', t) \<Rightarrow> (Inl f, var', s', t)
      | (None, var', s', t) \<Rightarrow>
          (case call_through env var' args of
             (Inl f, t') \<Rightarrow> (Inl f, var', s', t @ t')
           | (Inr r, t') \<Rightarrow>
               (Inr (if returns then Some r else None), var', s', t @ t')))"

text \<open>A wrapper that is a member function keeps \<^verbatim>\<open>var\<close> in the context object.\<close>

definition member_wrapped ::
  "build \<Rightarrow> ('v, 'p) platform \<Rightarrow> string \<Rightarrow> string \<Rightarrow> bool \<Rightarrow> 'v list \<Rightarrow>
     OpenGLContext \<Rightarrow> state \<Rightarrow>
     (failure + 'v option) \<times> OpenGLContext \<times> state \<times> ('v, 'p) event list" where
  "member_wrapped b env name var returns args ctx s =
     (case wrapped b env name returns args (members ctx var) s of
        (out, var', s', t) \<Rightarrow> (out, ctx\<lparr>members := (members ctx)(var := var')\<rparr>, s', t))"

text \<open>A wrapper that is a free function keeps \<^verbatim>\<open>var\<close> in a function-local static.\<close>

definition static_wrapped ::
  "build \<Rightarrow> ('v, 'p) platform \<Rightarrow> string \<Rightarrow> string \<Rightarrow> bool \<Rightarrow> 'v list \<Rightarrow> state \<Rightarrow>
     (failure + 'v option) \<times> state \<times> ('v, 'p) event list" where
  "static_wrapped b env name var returns args s =
     (case wrapped b env name returns args (statics s var) s of
        (out, var', s', t) \<Rightarrow> (out, s'\<lparr>statics := (statics s')(var := var')\<rparr>, t))"

subsection \<open>Wrappers of the source, as written\<close>

definition wglCreateContext ::
  "build \<Rightarrow> ('v, 'p) platform \<Rightarrow> OpenGLContext \<Rightarrow> 'v \<Rightarrow> state \<Rightarrow>
     (failure + 'v option) \<times> OpenGLContext \<times> state \<times> ('v, 'p) event list" where
  "wglCreateContext b env ctx hdc s =
     member_wrapped b env ''wglCreateContext'' ''m_pfnWglCreateContext'' True [hdc] ctx s"

definition wglMakeCurrent ::
  "build \<Rightarrow> ('v, 'p) platform \<Rightarrow> OpenGLContext \<Rightarrow> 'v \<Rightarrow> 'v \<Rightarrow> state \<Rightarrow>
     (failure + 'v option) \<times> OpenGLContext \<times> state \<times> ('v, 'p) event list" where
  "wglMakeCurrent b env ctx hdc hglrc s =
     member_wrapped b env ''wglMakeCurrent'' ''m_pfnWglMakeCurrent'' True [hdc, hglrc] ctx s"

definition glGetError ::
  "build \<Rightarrow> ('v, 'p) platform \<Rightarrow> state \<Rightarrow>
     (failure + 'v option) \<times> state \<times> ('v, 'p) event list" where
  "glGetError b env s = static_wrapped b env ''glGetError'' ''pfnGetError'' True [] s"

definition glViewport ::
  "build \<Rightarrow> ('v, 'p) platform \<Rightarrow> 'v \<Rightarrow> 'v \<Rightarrow> 'v \<Rightarrow> 'v \<Rightarrow> state \<Rightarrow>
     (failure + 'v option) \<times> state \<times> ('v, 'p) event list" where
  "glViewport b env x y width height s =
     static_wrapped b env ''glViewport'' ''pfnViewport'' False [x, y, width, height] s"

text \<open>
  \<^verbatim>\<open>OpenGLContext::wglGetProcAddress\<close> has no pointer member and does not use the macro.
\<close>

definition wglGetProcAddress ::
  "('v, 'p) platform \<Rightarrow> OpenGLContext \<Rightarrow> string \<Rightarrow> state \<Rightarrow>
     addr \<times> OpenGLContext \<times> state \<times> ('v, 'p) event list" where
  "wglGetProcAddress env ctx lpszProc s =
     (case Loader_instance env s of
        (L, s', t) \<Rightarrow>
          (case getProcAddress L env lpszProc of
             (p, t') \<Rightarrow> (p, ctx, s', t @ t')))"

text \<open>
  \<^verbatim>\<open>OpenGLContext::SwapBuffers\<close>: the macro and the call through a member are commented
  out in the source; what remains is the call of \<^verbatim>\<open>::SwapBuffers\<close> of Gdi32.
\<close>

definition SwapBuffers ::
  "('v, 'p) platform \<Rightarrow> OpenGLContext \<Rightarrow> addr \<Rightarrow> state \<Rightarrow>
     int \<times> OpenGLContext \<times> state \<times> ('v, 'p) event list" where
  "SwapBuffers env ctx hdc s = (gdi_SwapBuffers env hdc, ctx, s, [EvGdiSwapBuffers hdc])"

section \<open>The wrapped entry points\<close>

text \<open>
  Every function of \<^verbatim>\<open>OpenGL.cpp\<close> that uses \<^verbatim>\<open>LOAD_ENTRYPOINT\<close> has the same shape; the
  tables below transcribe, for each of them in the order of the source, what differs:
  the declared result type, the string literal given to the macro, the pointer variable, the names of the
  parameters in the order of the declaration, the argument expressions of the call
  through the pointer in their order, and whether the body returns the result of that
  call (\<^verbatim>\<open>return var(...);\<close>) or drops it (\<^verbatim>\<open>var(...);\<close> in a \<^verbatim>\<open>void\<close> function).
\<close>

record entry_point =
  ep_type :: string
  ep_name :: string
  ep_var :: string
  ep_params :: "string list"
  ep_args :: "string list"
  ep_returns :: bool

text \<open>The member functions of \<^verbatim>\<open>OpenGLContext\<close> (lines 121 to 245 of the source).\<close>

definition context_entry_points :: "entry_point list" where
  "context_entry_points =
     [\<lparr>ep_type = ''BOOL'', ep_name = ''wglCopyContext'', ep_var = ''m_pfnWglCopyContext'',
       ep_params = [''hglrcSource'', ''hglrcDest'', ''mask''],
       ep_args = [''hglrcSource'', ''hglrcDest'', ''mask''],
       ep_returns = True\<rparr>,
      \<lparr>ep_type = ''HGLRC'', ep_name = ''wglCreateContext'', ep_var = ''m_pfnWglCreateContext'',
       ep_params = [''hdc''],
       ep_args = [''hdc''],
       ep_returns = True\<rparr>,
      \<lparr>ep_type = ''HGLRC'', ep_name = ''wglCreateLayerContext'', ep_var = ''m_pfnWglCreateLayerContext'',
       ep_params = [''hdc'', ''iLayerPlane''],
       ep_args = [''hdc'', ''iLayerPlane''],
       ep_returns = True\<rparr>,
      \<lparr>ep_type = ''BOOL'', ep_name = ''wglDeleteContext'', ep_var = ''m_pfnWglDeleteContext'',
       ep_params = [''hglrc''],
       ep_args = [''hglrc''],
       ep_returns = True\<rparr>,
      \<lparr>ep_type = ''BOOL'', ep_name = ''wglDescribeLayerPlane'', ep_var = ''m_pfnWglDescribeLayerPlane'',
       ep_params = [''hdc'', ''iPixelFormat'', ''iLayerPlane'', ''nBytes'', ''plpd''],
       ep_args = [''hdc'', ''iPixelFormat'', ''iLayerPlane'', ''nBytes'', ''plpd''],
       ep_returns = True\<rparr>,
      \<lparr>ep_type = ''HGLRC'', ep_name = ''wglGetCurrentContext'', ep_var = ''m_pfnWglGetCurrentContext'',
       ep_params = [],
       ep_args = [],
       ep_returns = True\<rparr>,
      \<lparr>ep_type = ''HDC'', ep_name = ''wglGetCurrentDC'', ep_var = ''m_pfnWglGetCurrentDC'',
       ep_params = [],
       ep_args = [],
       ep_returns = True\<rparr>,
      \<lparr>ep_type = ''int'', ep_name = ''wglGetLayerPaletteEntries'', ep_var = ''m_pfnWglGetLayerPaletteEntries'',
       ep_params = [''hdc'', ''iLayerPlane'', ''iStart'', ''cEntries'', ''pcr''],
       ep_args = [''hdc'', ''iLayerPlane'', ''iStart'', ''cEntries'', ''pcr''],
       ep_returns = True\<rparr>,
      \<lparr>ep_type = ''BOOL'', ep_name = ''wglMakeCurrent'', ep_var = ''m_pfnWglMakeCurrent'',
       ep_params = [''hdc'', ''hglrc''],
       ep_args = [''hdc'', ''hglrc''],
       ep_returns = True\<rparr>,
      \<lparr>ep_type = ''BOOL'', ep_name = ''wglRealizeLayerPalette'', ep_var = ''m_pfnWglRealizeLayerPalette'',
       ep_params = [''hdc'', ''iLayerPlane'', ''bRealize''],
       ep_args = [''hdc'', ''iLayerPlane'', ''bRealize''],
       ep_returns = True\<rparr>,
      \<lparr>ep_type = ''int'', ep_name = ''wglSetLayerPaletteEntries'', ep_var = ''m_pfnWglSetLayerPaletteEntries'',
       ep_params = [''hdc'', ''iLayerPlane'', ''iStart'', ''cEntries'', ''pcr''],
       ep_args = [''hdc'', ''iLayerPlane'', ''iStart'', ''cEntries'', ''pcr''],
       ep_returns = True\<rparr>,
      \<lparr>ep_type = ''BOOL'', ep_name = ''wglShareLists'', ep_var = ''m_pfnWglShareLists'',
       ep_params = [''hglrc1'', ''hglrc2''],
       ep_args = [''hglrc1'', ''hglrc2''],
       ep_returns = True\<rparr>,
      \<lparr>ep_type = ''BOOL'', ep_name = ''wglSwapLayerBuffers'', ep_var = ''m_pfnWglSwapLayerBuffers'',
       ep_params = [''hdc'', ''fuPlanes''],
       ep_args = [''hdc'', ''fuPlanes''],
       ep_returns = True\<rparr>,
      \<lparr>ep_type = ''DWORD'', ep_name = ''wglSwapMultipleBuffers'', ep_var = ''m_pfnWglSwapMultipleBuffers'',
       ep_params = [''count'', ''toSwap''],
       ep_args = [''count'', ''toSwap''],
       ep_returns = True\<rparr>,
      \<lparr>ep_type = ''BOOL'', ep_name = ''wglUseFontBitmapsA'', ep_var = ''m_pfnWglUseFontBitmapsA'',
       ep_params = [''hdc'', ''first'', ''count'', ''listBase''],
       ep_args = [''hdc'', ''first'', ''count'', ''listBase''],
       ep_returns = True\<rparr>,
      \<lparr>ep_type = ''BOOL'', ep_name = ''wglUseFontBitmapsW'', ep_var = ''m_pfnWglUseFontBitmapsW'',
       ep_params = [''hdc'', ''first'', ''count'', ''listBase''],
       ep_args = [''hdc'', ''first'', ''count'', ''listBase''],
       ep_returns = True\<rparr>,
      \<lparr>ep_type = ''BOOL'', ep_name = ''wglUseFontOutlinesA'', ep_var = ''m_pfnWglUseFontOutlinesA'',
       ep_params = [''hdc'', ''first'', ''count'', ''listBase'', ''deviation'', ''extrusion'', ''format'', ''lpgmf''],
       ep_args = [''hdc'', ''first'', ''count'', ''listBase'', ''deviation'', ''extrusion'', ''format'', ''lpgmf''],
       ep_returns = True\<rparr>,
      \<lparr>ep_type = ''BOOL'', ep_name = ''wglUseFontOutlinesW'', ep_var = ''m_pfnWglUseFontOutlinesW'',
       ep_params = [''hdc'', ''first'', ''count'', ''listBase'', ''deviation'', ''extrusion'', ''format'', ''lpgmf''],
       ep_args = [''hdc'', ''first'', ''count'', ''listBase'', ''deviation'', ''extrusion'', ''format'', ''lpgmf''],
       ep_returns = True\<rparr>]"

text \<open>The gl functions (lines 251 to 748 of the source).\<close>

definition gl_entry_points_1 :: "entry_point list" where
  "gl_entry_points_1 =
     [\<lparr>ep_type = ''void'', ep_name = ''glCullFace'', ep_var = ''pfnCullFace'',
       ep_params = [''mode''],
       ep_args = [''mode''],
       ep_returns = False\<rparr>,
      \<lparr>ep_type = ''void'', ep_name = ''glFrontFace'', ep_var = ''pfnFrontFace'',
       ep_params = [''mode''],
       ep_args = [''mode''],
       ep_returns = False\<rparr>,
      \<lparr>ep_type = ''void'', ep_name = ''glHint'', ep_var = ''pfnHint'',
       ep_params = [''target'', ''mode''],
       ep_args = [''target'', ''mode''],
       ep_returns = False\<rparr>,
      \<lparr>ep_type = ''void'', ep_name = ''glLineWidth'', ep_var = ''pfnLineWidth'',
       ep_params = [''width''],
       ep_args = [''width''],
       ep_returns = False\<rparr>,
      \<lparr>ep_type = ''void'', ep_name = ''glPointSize'', ep_var = ''pfnPointSize'',
       ep_params = [''size''],
       ep_args = [''size''],
       ep_returns = False\<rparr>,
      \<lparr>ep_type = ''void'', ep_name = ''glPolygonMode'', ep_var = ''pfnPolygonMode'',
       ep_params = [''face'', ''mode''],
       ep_args = [''face'', ''mode''],
       ep_returns = False\<rparr>,
      \<lparr>ep_type = ''void'', ep_name = ''glScissor'', ep_var = ''pfnScissor'',
       ep_params = [''x'', ''y'', ''width'', ''height''],
       ep_args = [''x'', ''y'', ''width'', ''height''],
       ep_returns = False\<rparr>,
      \<lparr>ep_type = ''void'', ep_name = ''glTexParameterf'', ep_var = ''pfnTexParameterf'',
       ep_params = [''target'', ''pname'', ''param''],
       ep_args = [''target'', ''pname'', ''param''],
       ep_returns = False\<rparr>,
      \<lparr>ep_type = ''void'', ep_name = ''glTexParameterfv'', ep_var = ''pfnTexParameterfv'',
       ep_params = [''target'', ''pname'', ''params''],
       ep_args = [''target'', ''pname'', ''params''],
       ep_returns = False\<rparr>,
      \<lparr>ep_type = ''void'', ep_name = ''glTexParameteri'', ep_var = ''pfnTexParameteri'',
       ep_params = [''target'', ''pname'', ''param''],
       ep_args = [''target'', ''pname'', ''param''],
       ep_returns = False\<rparr>,
      \<lparr>ep_type = ''void'', ep_name = ''glTexParameteriv'', ep_var = ''pfnTexParameteriv'',
       ep_params = [''target'', ''pname'', ''params''],
       ep_args = [''target'', ''pname'', ''params''],
       ep_returns = False\<rparr>,
      \<lparr>ep_type = ''void'', ep_name = ''glTexImage1D'', ep_var = ''pfnTexImage1D'',
       ep_params = [''target'', ''level'', ''internalformat'', ''width'', ''border'', ''format'', ''type'', ''pixels''],
       ep_args = [''target'', ''level'', ''internalformat'', ''width'', ''border'', ''format'', ''type'', ''pixels''],
       ep_returns = False\<rparr>,
      \<lparr>ep_type = ''void'', ep_name = ''glTexImage2D'', ep_var = ''pfnTexImage2D'',
       ep_params = [''target'', ''level'', ''internalformat'', ''width'', ''height'', ''border'', ''format'', ''type'', ''pixels''],
       ep_args = [''target'', ''level'', ''internalformat'', ''width'', ''height'', ''border'', ''format'', ''type'', ''pixels''],
       ep_returns = False\<rparr>,
      \<lparr>ep_type = ''void'', ep_name = ''glDrawBuffer'', ep_var = ''pfnDrawBuffer'',
       ep_params = [''buf''],
       ep_args = [''buf''],
       ep_returns = False\<rparr>,
      \<lparr>ep_type = ''void'', ep_name = ''glClear'', ep_var = ''pfnClear'',
       ep_params = [''mask''],
       ep_args = [''mask''],
       ep_returns = False\<rparr>,
      \<lparr>ep_type = ''void'', ep_name = ''glClearColor'', ep_var = ''pfnClearColor'',
       ep_params = [''red'', ''green'', ''blue'', ''alpha''],
       ep_args = [''red'', ''green'', ''blue'', ''alpha''],
       ep_returns = False\<rparr>,
      \<lparr>ep_type = ''void'', ep_name = ''glClearStencil'', ep_var = ''pfnClearStencil'',
       ep_params = [''s''],
       ep_args = [''s''],
       ep_returns = False\<rparr>,
      \<lparr>ep_type = ''void'', ep_name = ''glClearDepth'', ep_var = ''pfnClearDepth'',
       ep_params = [''depth''],
       ep_args = [''depth''],
       ep_returns = False\<rparr>,
      \<lparr>ep_type = ''void'', ep_name = ''glStencilMask'', ep_var = ''pfnStencilMask'',
       ep_params = [''mask''],
       ep_args = [''mask''],
       ep_returns = False\<rparr>,
      \<lparr>ep_type = ''void'', ep_name = ''glColorMask'', ep_var = ''pfnColorMask'',
       ep_params = [''red'', ''green'', ''blue'', ''alpha''],
       ep_args = [''red'', ''green'', ''blue'', ''alpha''],
       ep_returns = False\<rparr>,
      \<lparr>ep_type = ''void'', ep_name = ''glDepthMask'', ep_var = ''pfnDepthMask'',
       ep_params = [''flag''],
       ep_args = [''flag''],
       ep_returns = False\<rparr>]"

definition gl_entry_points_2 :: "entry_point list" where
  "gl_entry_points_2 =
     [\<lparr>ep_type = ''void'', ep_name = ''glDisable'', ep_var = ''pfnDisable'',
       ep_params = [''cap''],
       ep_args = [''cap''],
       ep_returns = False\<rparr>,
      \<lparr>ep_type = ''void'', ep_name = ''glEnable'', ep_var = ''pfnEnable'',
       ep_params = [''cap''],
       ep_args = [''cap''],
       ep_returns = False\<rparr>,
      \<lparr>ep_type = ''void'', ep_name = ''glFinish'', ep_var = ''pfnFinish'',
       ep_params = [],
       ep_args = [],
       ep_returns = False\<rparr>,
      \<lparr>ep_type = ''void'', ep_name = ''glFlush'', ep_var = ''pfnFlush'',
       ep_params = [],
       ep_args = [],
       ep_returns = False\<rparr>,
      \<lparr>ep_type = ''void'', ep_name = ''glBlendFunc'', ep_var = ''pfnBlendFunc'',
       ep_params = [''sfactor'', ''dfactor''],
       ep_args = [''sfactor'', ''dfactor''],
       ep_returns = False\<rparr>,
      \<lparr>ep_type = ''void'', ep_name = ''glLogicOp'', ep_var = ''pfnLogicOp'',
       ep_params = [''opcode''],
       ep_args = [''opcode''],
       ep_returns = False\<rparr>,
      \<lparr>ep_type = ''void'', ep_name = ''glStencilFunc'', ep_var = ''pfnStencilFunc'',
       ep_params = [''func'', ''ref'', ''mask''],
       ep_args = [''func'', ''ref'', ''mask''],
       ep_returns = False\<rparr>,
      \<lparr>ep_type = ''void'', ep_name = ''glStencilOp'', ep_var = ''pfnStencilOp'',
       ep_params = [''fail'', ''zfail'', ''zpass''],
       ep_args = [''fail'', ''zfail'', ''zpass''],
       ep_returns = False\<rparr>,
      \<lparr>ep_type = ''void'', ep_name = ''glDepthFunc'', ep_var = ''pfnDepthFunc'',
       ep_params = [''func''],
       ep_args = [''func''],
       ep_returns = False\<rparr>,
      \<lparr>ep_type = ''void'', ep_name = ''glPixelStoref'', ep_var = ''pfnPixelStoref'',
       ep_params = [''pname'', ''param''],
       ep_args = [''pname'', ''param''],
       ep_returns = False\<rparr>,
      \<lparr>ep_type = ''void'', ep_name = ''glPixelStorei'', ep_var = ''pfnPixelStorei'',
       ep_params = [''pname'', ''param''],
       ep_args = [''pname'', ''param''],
       ep_returns = False\<rparr>,
      \<lparr>ep_type = ''void'', ep_name = ''glReadBuffer'', ep_var = ''pfnReadBuffer'',
       ep_params = [''src''],
       ep_args = [''src''],
       ep_returns = False\<rparr>,
      \<lparr>ep_type = ''void'', ep_name = ''glReadPixels'', ep_var = ''pfnReadPixels'',
       ep_params = [''x'', ''y'', ''width'', ''height'', ''format'', ''type'', ''pixels''],
       ep_args = [''x'', ''y'', ''width'', ''height'', ''format'', ''type'', ''pixels''],
       ep_returns = False\<rparr>,
      \<lparr>ep_type = ''void'', ep_name = ''glGetBooleanv'', ep_var = ''pfnGetBooleanv'',
       ep_params = [''pname'', ''data''],
       ep_args = [''pname'', ''data''],
       ep_returns = False\<rparr>,
      \<lparr>ep_type = ''void'', ep_name = ''glGetDoublev'', ep_var = ''pfnGetDoublev'',
       ep_params = [''pname'', ''data''],
       ep_args = [''pname'', ''data''],
       ep_returns = False\<rparr>,
      \<lparr>ep_type = ''GLenum'', ep_name = ''glGetError'', ep_var = ''pfnGetError'',
       ep_params = [],
       ep_args = [],
       ep_returns = True\<rparr>,
      \<lparr>ep_type = ''void'', ep_name = ''glGetFloatv'', ep_var = ''pfnGetFloatv'',
       ep_params = [''pname'', ''data''],
       ep_args = [''pname'', ''data''],
       ep_returns = False\<rparr>,
      \<lparr>ep_type = ''void'', ep_name = ''glGetIntegerv'', ep_var = ''pfnGetIntegerv'',
       ep_params = [''pname'', ''data''],
       ep_args = [''pname'', ''data''],
       ep_returns = False\<rparr>,
      \<lparr>ep_type = ''const GLubyte*'', ep_name = ''glGetString'', ep_var = ''pfnGetString'',
       ep_params = [''name''],
       ep_args = [''name''],
       ep_returns = True\<rparr>,
      \<lparr>ep_type = ''void'', ep_name = ''glGetTexImage'', ep_var = ''pfnGetTexImage'',
       ep_params = [''target'', ''level'', ''format'', ''type'', ''pixels''],
       ep_args = [''target'', ''level'', ''format'', ''type'', ''pixels''],
       ep_returns = False\<rparr>,
      \<lparr>ep_type = ''void'', ep_name = ''glGetTexParameterfv'', ep_var = ''pfnGetTexParameterfv'',
       ep_params = [''target'', ''pname'', ''params''],
       ep_args = [''target'', ''pname'', ''params''],
       ep_returns = False\<rparr>]"

definition gl_entry_points_3 :: "entry_point list" where
  "gl_entry_points_3 =
     [\<lparr>ep_type = ''void'', ep_name = ''glGetTexParameteriv'', ep_var = ''pfnGetTexParameteriv'',
       ep_params = [''target'', ''pname'', ''params''],
       ep_args = [''target'', ''pname'', ''params''],
       ep_returns = False\<rparr>,
      \<lparr>ep_type = ''void'', ep_name = ''glGetTexLevelParameterfv'', ep_var = ''pfnGetTexLevelParameterfv'',
       ep_params = [''target'', ''level'', ''pname'', ''params''],
       ep_args = [''target'', ''level'', ''pname'', ''params''],
       ep_returns = False\<rparr>,
      \<lparr>ep_type = ''void'', ep_name = ''glGetTexLevelParameteriv'', ep_var = ''pfnGetTexLevelParameteriv'',
       ep_params = [''target'', ''level'', ''pname'', ''params''],
       ep_args = [''target'', ''level'', ''pname'', ''params''],
       ep_returns = False\<rparr>,
      \<lparr>ep_type = ''GLboolean'', ep_name = ''glIsEnabled'', ep_var = ''pfnIsEnabled'',
       ep_params = [''cap''],
       ep_args = [''cap''],
       ep_returns = True\<rparr>,
      \<lparr>ep_type = ''void'', ep_name = ''glDepthRange'', ep_var = ''pfnDepthRange'',
       ep_params = [''n'', ''f''],
       ep_args = [''n'', ''f''],
       ep_returns = False\<rparr>,
      \<lparr>ep_type = ''void'', ep_name = ''glViewport'', ep_var = ''pfnViewport'',
       ep_params = [''x'', ''y'', ''width'', ''height''],
       ep_args = [''x'', ''y'', ''width'', ''height''],
       ep_returns = False\<rparr>,
      \<lparr>ep_type = ''void'', ep_name = ''glDrawArrays'', ep_var = ''pfnDrawArrays'',
       ep_params = [''mode'', ''first'', ''count''],
       ep_args = [''mode'', ''first'', ''count''],
       ep_returns = False\<rparr>,
      \<lparr>ep_type = ''void'', ep_name = ''glDrawElements'', ep_var = ''pfnDrawElements'',
       ep_params = [''mode'', ''count'', ''type'', ''indices''],
       ep_args = [''mode'', ''count'', ''type'', ''indices''],
       ep_returns = False\<rparr>,
      \<lparr>ep_type = ''void'', ep_name = ''glGetPointerv'', ep_var = ''pfnGetPointerv'',
       ep_params = [''pname'', ''params''],
       ep_args = [''pname'', ''params''],
       ep_returns = False\<rparr>,
      \<lparr>ep_type = ''void'', ep_name = ''glPolygonOffset'', ep_var = ''pfnPolygonOffset'',
       ep_params = [''factor'', ''units''],
       ep_args = [''factor'', ''units''],
       ep_returns = False\<rparr>,
      \<lparr>ep_type = ''void'', ep_name = ''glCopyTexImage1D'', ep_var = ''pfnCopyTexImage1D'',
       ep_params = [''target'', ''level'', ''internalformat'', ''x'', ''y'', ''width'', ''border''],
       ep_args = [''target'', ''level'', ''internalformat'', ''x'', ''y'', ''width'', ''border''],
       ep_returns = False\<rparr>,
      \<lparr>ep_type = ''void'', ep_name = ''glCopyTexImage2D'', ep_var = ''pfnCopyTexImage2D'',
       ep_params = [''target'', ''level'', ''internalformat'', ''x'', ''y'', ''width'', ''height'', ''border''],
       ep_args = [''target'', ''level'', ''internalformat'', ''x'', ''y'', ''width'', ''height'', ''border''],
       ep_returns = False\<rparr>,
      \<lparr>ep_type = ''void'', ep_name = ''glCopyTexSubImage1D'', ep_var = ''pfnCopyTexSubImage1D'',
       ep_params = [''target'', ''level'', ''xoffset'', ''x'', ''y'', ''width''],
       ep_args = [''target'', ''level'', ''xoffset'', ''x'', ''y'', ''width''],
       ep_returns = False\<rparr>,
      \<lparr>ep_type = ''void'', ep_name = ''glCopyTexSubImage2D'', ep_var = ''pfnCopyTexSubImage2D'',
       ep_params = [''target'', ''level'', ''xoffset'', ''yoffset'', ''x'', ''y'', ''width'', ''height''],
       ep_args = [''target'', ''level'', ''xoffset'', ''yoffset'', ''x'', ''y'', ''width'', ''height''],
       ep_returns = False\<rparr>,
      \<lparr>ep_type = ''void'', ep_name = ''glTexSubImage1D'', ep_var = ''pfnTexSubImage1D'',
       ep_params = [''target'', ''level'', ''xoffset'', ''width'', ''format'', ''type'', ''pixels''],
       ep_args = [''target'', ''level'', ''xoffset'', ''width'', ''format'', ''type'', ''pixels''],
       ep_returns = False\<rparr>,
      \<lparr>ep_type = ''void'', ep_name = ''glTexSubImage2D'', ep_var = ''pfnTexSubImage2D'',
       ep_params = [''target'', ''level'', ''xoffset'', ''yoffset'', ''width'', ''height'', ''format'', ''type'', ''pixels''],
       ep_args = [''target'', ''level'', ''xoffset'', ''yoffset'', ''width'', ''height'', ''format'', ''type'', ''pixels''],
       ep_returns = False\<rparr>,
      \<lparr>ep_type = ''void'', ep_name = ''glBindTexture'', ep_var = ''pfnBindTexture'',
       ep_params = [''target'', ''texture''],
       ep_args = [''target'', ''texture''],
       ep_returns = False\<rparr>,
      \<lparr>ep_type = ''void'', ep_name = ''glDeleteTextures'', ep_var = ''pfnDeleteTextures'',
       ep_params = [''n'', ''textures''],
       ep_args = [''n'', ''textures''],
       ep_returns = False\<rparr>,
      \<lparr>ep_type = ''void'', ep_name = ''glGenTextures'', ep_var = ''pfnGenTextures'',
       ep_params = [''n'', ''textures''],
       ep_args = [''n'', ''textures''],
       ep_returns = False\<rparr>,
      \<lparr>ep_type = ''GLboolean'', ep_name = ''glIsTexture'', ep_var = ''pfnIsTexture'',
       ep_params = [''texture''],
       ep_args = [''texture''],
       ep_returns = True\<rparr>]"

definition gl_entry_points :: "entry_point list" where
  "gl_entry_points = gl_entry_points_1 @ gl_entry_points_2 @ gl_entry_points_3"

text \<open>
  The values of the argument expressions of the call, given the values of the
  parameters. \<open>None\<close> stands for a call that the compiler rejects: a wrong number of
  arguments, or an argument expression that names no parameter.
\<close>

definition argument_values :: "entry_point \<Rightarrow> 'v list \<Rightarrow> 'v list option" where
  "argument_values ep vals =
     (if length vals = length (ep_params ep)
      then those (map (map_of (zip (ep_params ep) vals)) (ep_args ep))
      else None)"

definition context_entry_point ::
  "build \<Rightarrow> ('v, 'p) platform \<Rightarrow> entry_point \<Rightarrow> OpenGLContext \<Rightarrow> 'v list \<Rightarrow> state \<Rightarrow>
     ((failure + 'v option) \<times> OpenGLContext \<times> state \<times> ('v, 'p) event list) option" where
  "context_entry_point b env ep ctx vals s =
     map_option
       (\<lambda>args. member_wrapped b env (ep_name ep) (ep_var ep) (ep_returns ep) args ctx s)
       (argument_values ep vals)"

definition gl_entry_point ::
  "build \<Rightarrow> ('v, 'p) platform \<Rightarrow> entry_point \<Rightarrow> 'v list \<Rightarrow> state \<Rightarrow>
     ((failure + 'v option) \<times> state \<times> ('v, 'p) event list) option" where
  "gl_entry_point b env ep vals s =
     map_option
       (\<lambda>args. static_wrapped b env (ep_name ep) (ep_var ep) (ep_returns ep) args s)
       (argument_values ep vals)"

section \<open>The context factory\<close>

text \<open>
  \<^verbatim>\<open>OpenGLContext::createForWindow\<close>. The empty \<^verbatim>\<open>shared_ptr\<close> is \<open>None\<close>. The function
  touches neither the loader nor any static pointer, so it takes and returns no state.
\<close>

definition createForWindow ::
  "('v, 'p) platform \<Rightarrow> addr \<Rightarrow> 'p \<Rightarrow> OpenGLContext option \<times> ('v, 'p) event list" where
  "createForWindow env hWnd pfd =
     (let pContext = new_OpenGLContext;
          hDC = GetDC env hWnd
      in if hDC = 0 then (None, [EvGetDC hWnd])
         else
           (let pf = ChoosePixelFormat env hDC pfd
            in if SetPixelFormat env hDC pf pfd = 0
               then (None,
                     [EvGetDC hWnd, EvChoosePixelFormat hDC pfd, EvSetPixelFormat hDC pf pfd])
               else (Some pContext,
                     [EvGetDC hWnd, EvChoosePixelFormat hDC pfd, EvSetPixelFormat hDC pf pfd])))"

section \<open>Reading a trace\<close>

text \<open>The names given to \<^verbatim>\<open>Loader::getProcAddress\<close>, in the order of the calls.\<close>

fun resolved_names :: "('v, 'p) event list \<Rightarrow> string list" where
  "resolved_names [] = []"
| "resolved_names (EvResolve n # t) = n # resolved_names t"
| "resolved_names (e # t) = resolved_names t"

text \<open>The calls made through a pointer variable: the address called and the arguments.\<close>

fun calls_through :: "('v, 'p) event list \<Rightarrow> (addr \<times> 'v list) list" where
  "calls_through [] = []"
| "calls_through (EvCallThrough p args # t) = (p, args) # calls_through t"
| "calls_through (e # t) = calls_through t"

text \<open>The lookups of exported symbols and the library loads.\<close>

fun library_calls :: "('v, 'p) event list \<Rightarrow> ('v, 'p) event list" where
  "library_calls [] = []"
| "library_calls (EvLoadLibraryA n # t) = EvLoadLibraryA n # library_calls t"
| "library_calls (EvGetProcAddress h n # t) = EvGetProcAddress h n # library_calls t"
| "library_calls (EvExtensionQuery p n # t) = EvExtensionQuery p n # library_calls t"
| "library_calls (e # t) = library_calls t"

section \<open>Repeated invocation of one wrapper\<close>

text \<open>
  The same wrapper invoked again and again, each time with arguments of its own and
  under a platform of its own (the driver may answer differently each time). The
  pointer variable lives where the source keeps it: in the program state for a free
  function, in the context object for a member function. The sequence ends at the
  first invocation that ends the process.
\<close>

fun static_sequence ::
  "build \<Rightarrow> string \<Rightarrow> string \<Rightarrow> bool \<Rightarrow> (('v, 'p) platform \<times> 'v list) list \<Rightarrow> state \<Rightarrow>
     failure option \<times> state \<times> ('v, 'p) event list" where
  "static_sequence b name var returns [] s = (None, s, [])"
| "static_sequence b name var returns ((env, args) # rest) s =
     (case static_wrapped b env name var returns args s of
        (Inl f, s', t) \<Rightarrow> (Some f, s', t)
      | (Inr r, s', t) \<Rightarrow>
          (case static_sequence b name var returns rest s' of
             (f, s'', t') \<Rightarrow> (f, s'', t @ t')))"

fun member_sequence ::
  "build \<Rightarrow> string \<Rightarrow> string \<Rightarrow> bool \<Rightarrow> (('v, 'p) platform \<times> 'v list) list \<Rightarrow>
     OpenGLContext \<Rightarrow> state \<Rightarrow>
     failure option \<times> OpenGLContext \<times> state \<times> ('v, 'p) event list" where
  "member_sequence b name var returns [] ctx s = (None, ctx, s, [])"
| "member_sequence b name var returns ((env, args) # rest) ctx s =
     (case member_wrapped b env name var returns args ctx s of
        (Inl f, ctx', s', t) \<Rightarrow> (Some f, ctx', s', t)
      | (Inr r, ctx', s', t) \<Rightarrow>
          (case member_sequence b name var returns rest ctx' s' of
             (f, ctx'', s'', t') \<Rightarrow> (f, ctx'', s'', t @ t')))"

section \<open>Reading the tables\<close>

text \<open>
  An entry of the tables passes its parameters on when the argument expressions of
  the call are the parameters, in the order of the declaration, and the body returns
  the result of the call exactly when the declared result type is not \<^verbatim>\<open>void\<close>.
\<close>

definition transcribed :: "entry_point \<Rightarrow> bool" where
  "transcribed ep \<longleftrightarrow>
     ep_args ep = ep_params ep \<and> distinct (ep_params ep) \<and>
     (ep_returns ep \<longleftrightarrow> ep_type ep \<noteq> ''void'')"

section \<open>Platforms to run the code on\<close>

text \<open>
  A driver in the manner of the specification's end-to-end scenario. The library
  \<^verbatim>\<open>opengl32.dll\<close> loads at \<open>0x10000000\<close> and exports \<^verbatim>\<open>wglGetProcAddress\<close>, two core entry
  points and \<^verbatim>\<open>fnA\<close>. The extension query answers the sentinel \<open>0x1\<close> for \<^verbatim>\<open>fnA\<close> and for
  \<^verbatim>\<open>glGetError\<close>, null for \<^verbatim>\<open>wglCreateContext\<close>, an address for \<^verbatim>\<open>fnB\<close>, and null for any
  other name. An entry point called with integers returns their sum. Every window has
  a device context but the window \<open>0xDEAD\<close>; pixel format \<open>7\<close> is chosen for every
  request, and format \<open>0\<close> cannot be set.
\<close>

definition fake_exports :: "(string \<times> addr) list" where
  "fake_exports =
     [(''wglGetProcAddress'', 0x500), (''wglCreateContext'', 0x1000),
      (''glGetError'', 0x2000), (''fnA'', 0x3000)]"

definition fake_extensions :: "(string \<times> addr) list" where
  "fake_extensions = [(''fnA'', 0x1), (''glGetError'', 0x1), (''fnB'', 0x4000)]"

definition fake_driver :: "(int, unit) platform" where
  "fake_driver =
     \<lparr>LoadLibraryA = (\<lambda>n. if n = ''opengl32.dll'' then 0x10000000 else 0),
      GetProcAddress =
        (\<lambda>h n. if h = 0x10000000
               then (case map_of fake_exports n of Some a \<Rightarrow> a | None \<Rightarrow> 0)
               else 0),
      call_PFNWGLGETPROCADDRESSPROC =
        (\<lambda>p n. if p = 0x500
               then (case map_of fake_extensions n of Some a \<Rightarrow> a | None \<Rightarrow> 0)
               else 0),
      GetDC = (\<lambda>hWnd. if hWnd = 0xDEAD then 0 else hWnd + 1),
      ChoosePixelFormat = (\<lambda>hDC pfd. 7),
      SetPixelFormat = (\<lambda>hDC pf pfd. if pf = 0 then 0 else 1),
      gdi_SwapBuffers = (\<lambda>hDC. 1),
      call_entry_point = (\<lambda>p args. sum_list args)\<rparr>"

text \<open>
  The same driver after its answers have changed: the extension query now gives the
  address \<open>0x9000\<close> for every name.
\<close>

definition changed_driver :: "(int, unit) platform" where
  "changed_driver =
     fake_driver\<lparr>call_PFNWGLGETPROCADDRESSPROC := (\<lambda>p n. 0x9000)\<rparr>"

text \<open>A machine on which \<^verbatim>\<open>opengl32.dll\<close> cannot be loaded.\<close>

definition no_driver :: "(int, unit) platform" where
  "no_driver = fake_driver\<lparr>LoadLibraryA := (\<lambda>n. 0)\<rparr>"

text \<open>A loader that holds the library of \<open>fake_driver\<close> and its extension query.\<close>

definition fake_loader :: Loader where
  "fake_loader = \<lparr>m_hLibGL = 0x10000000, m_pfnWglGetProcAddress = 0x500\<rparr>"

text \<open>
  The reserved values of the specification, in its words: null, the bit patterns
  \<open>0x1\<close>, \<open>0x2\<close>, \<open>0x3\<close>, and the pattern with every bit set.
\<close>

definition reserved_sentinel :: "addr \<Rightarrow> bool" where
  "reserved_sentinel p \<longleftrightarrow> p = 0x1 \<or> p = 0x2 \<or> p = 0x3 \<or> p = NOT 0"

definition extension_query_failed :: "addr \<Rightarrow> bool" where
  "extension_query_failed p \<longleftrightarrow> p = 0 \<or> reserved_sentinel p"

section \<open>The resolver\<close>

text \<open>
  C1. Given a loader that holds an extension-query function, resolving a name first
  calls that function with the name. When the answer is null or one of the reserved
  patterns \<open>0x1\<close>, \<open>0x2\<close>, \<open>0x3\<close>, all-ones, the result is that of the direct lookup of the
  name in the library handle, made after the query; for any other answer the result is
  the answer, and no direct lookup is made.
\<close>

theorem getProcAddress_two_tier:
  assumes "m_pfnWglGetProcAddress L \<noteq> 0"
  shows "getProcAddress L env name =
           (if extension_query_failed
                 (call_PFNWGLGETPROCADDRESSPROC env (m_pfnWglGetProcAddress L) name)
            then (GetProcAddress env (m_hLibGL L) name,
                  [EvResolve name,
                   EvExtensionQuery (m_pfnWglGetProcAddress L) name,
                   EvGetProcAddress (m_hLibGL L) name])
            else (call_PFNWGLGETPROCADDRESSPROC env (m_pfnWglGetProcAddress L) name,
                  [EvResolve name,
                   EvExtensionQuery (m_pfnWglGetProcAddress L) name]))"
  using assms
  by (simp add: getProcAddress_def extension_query_failed_def reserved_sentinel_def Let_def)

theorem getProcAddress_two_tier_witness:
  "m_pfnWglGetProcAddress fake_loader \<noteq> 0 \<and>
   getProcAddress fake_loader fake_driver ''fnA'' =
     (0x3000,
      [EvResolve ''fnA'', EvExtensionQuery 0x500 ''fnA'', EvGetProcAddress 0x10000000 ''fnA'']) \<and>
   getProcAddress fake_loader fake_driver ''fnB'' =
     (0x4000, [EvResolve ''fnB'', EvExtensionQuery 0x500 ''fnB''])"
proof -
  have h: "m_pfnWglGetProcAddress fake_loader \<noteq> 0"
    by (simp add: fake_loader_def)
  from h getProcAddress_two_tier [OF h, of fake_driver "''fnA''"]
    getProcAddress_two_tier [OF h, of fake_driver "''fnB''"]
  show ?thesis
    by (simp add: extension_query_failed_def reserved_sentinel_def fake_driver_def
        fake_loader_def fake_exports_def fake_extensions_def)
qed

section \<open>Facts about traces and wrappers\<close>

lemma resolved_names_append: "resolved_names (t @ u) = resolved_names t @ resolved_names u"
  by (induction t rule: resolved_names.induct) simp_all

lemma calls_through_append: "calls_through (t @ u) = calls_through t @ calls_through u"
  by (induction t rule: calls_through.induct) simp_all

lemma resolved_names_Loader_instance:
  "Loader_instance env s = (L, s', t) \<Longrightarrow> resolved_names t = [] \<and> calls_through t = []"
  by (auto simp: Loader_instance_def Loader_ctor_def Let_def split: option.splits if_splits)

lemma Loader_instance_statics:
  "Loader_instance env s = (L, s', t) \<Longrightarrow> statics s' = statics s"
  by (auto simp: Loader_instance_def Loader_ctor_def Let_def split: option.splits if_splits)

lemma getProcAddress_trace:
  "getProcAddress L env name = (p, t) \<Longrightarrow> resolved_names t = [name] \<and> calls_through t = []"
  by (auto simp: getProcAddress_def Let_def split: if_splits)

lemma LOAD_ENTRYPOINT_cached:
  "var \<noteq> 0 \<Longrightarrow> LOAD_ENTRYPOINT b env name var s = (None, var, s, [])"
  by (simp add: LOAD_ENTRYPOINT_def)

lemma wrapped_cached:
  "var \<noteq> 0 \<Longrightarrow>
   wrapped b env name returns args var s =
     (Inr (if returns then Some (call_entry_point env var args) else None), var, s,
      [EvCallThrough var args])"
  by (simp add: wrapped_def LOAD_ENTRYPOINT_cached call_through_def)

lemma getProcAddress_null_query:
  "m_pfnWglGetProcAddress L = 0 \<Longrightarrow> getProcAddress L env name = (0, [EvResolve name])"
  by (simp add: getProcAddress_def)

lemma Loader_ctor_null_query:
  assumes "LoadLibraryA env ''opengl32.dll'' = 0 \<or>
           GetProcAddress env (LoadLibraryA env ''opengl32.dll'') ''wglGetProcAddress'' = 0"
  shows "m_pfnWglGetProcAddress (fst (Loader_ctor env)) = 0"
  using assms by (auto simp: Loader_ctor_def Let_def)

lemma Loader_instance_fresh:
  "theInstance s = None \<Longrightarrow>
   Loader_instance env s =
     (fst (Loader_ctor env), s\<lparr>theInstance := Some (fst (Loader_ctor env))\<rparr>,
      snd (Loader_ctor env))"
  by (simp add: Loader_instance_def split: prod.splits)

lemma Loader_instance_held:
  "theInstance s = Some L \<Longrightarrow> Loader_instance env s = (L, s, [])"
  by (simp add: Loader_instance_def)

lemma those_map_of_zip:
  "length ps = length vs \<Longrightarrow> distinct ps \<Longrightarrow> those (map (map_of (zip ps vs)) ps) = Some vs"
proof (induction ps vs rule: list_induct2)
  case Nil
  then show ?case by simp
next
  case (Cons p ps v vs)
  have "map (\<lambda>a. if a = p then Some v else map_of (zip ps vs) a) ps = map (map_of (zip ps vs)) ps"
    using Cons.prems by (intro map_cong) auto
  with Cons show ?case
    by (simp add: fun_upd_def cong: map_cong)
qed

lemma argument_values_params:
  assumes "ep_args ep = ep_params ep" and "distinct (ep_params ep)"
    and "length vals = length (ep_params ep)"
  shows "argument_values ep vals = Some vals"
  using assms those_map_of_zip [of "ep_params ep" vals]
  by (simp add: argument_values_def)

lemma context_entry_points_transcribed: "list_all transcribed context_entry_points"
  by (simp add: context_entry_points_def transcribed_def)

lemma gl_entry_points_1_transcribed: "list_all transcribed gl_entry_points_1"
  by (simp add: gl_entry_points_1_def transcribed_def)

lemma gl_entry_points_2_transcribed: "list_all transcribed gl_entry_points_2"
  by (simp add: gl_entry_points_2_def transcribed_def)

lemma gl_entry_points_3_transcribed: "list_all transcribed gl_entry_points_3"
  by (simp add: gl_entry_points_3_def transcribed_def)

lemma gl_entry_points_transcribed: "list_all transcribed gl_entry_points"
  by (simp add: gl_entry_points_def gl_entry_points_1_transcribed
      gl_entry_points_2_transcribed gl_entry_points_3_transcribed)

lemma resolve_trace:
  assumes "resolve env s name = (p, s1, t)"
  shows "resolved_names t = [name] \<and> calls_through t = [] \<and> statics s1 = statics s"
proof -
  obtain L s' t0 where I: "Loader_instance env s = (L, s', t0)"
    by (metis prod_cases3)
  obtain q t1 where G: "getProcAddress L env name = (q, t1)"
    by (metis surj_pair)
  from assms I G have "s1 = s'" "t = t0 @ t1"
    by (simp_all add: resolve_def)
  with resolved_names_Loader_instance [OF I] getProcAddress_trace [OF G]
    Loader_instance_statics [OF I]
  show ?thesis
    by (simp add: resolved_names_append calls_through_append)
qed

lemma wrapped_exact:
  assumes "resolve env s name = (p, s1, t)"
  shows "wrapped b env name returns args var s =
           (if var \<noteq> 0
            then (Inr (if returns then Some (call_entry_point env var args) else None),
                  var, s, [EvCallThrough var args])
            else if p \<noteq> 0
            then (Inr (if returns then Some (call_entry_point env p args) else None),
                  p, s1, t @ [EvCallThrough p args])
            else (Inl (if b = Debug then AssertionFailed else NullCall), 0, s1, t))"
proof (cases "var = 0")
  case False
  then show ?thesis by (simp add: wrapped_cached)
next
  case True
  obtain L s' t0 where I: "Loader_instance env s = (L, s', t0)"
    by (metis prod_cases3)
  obtain q t1 where G: "getProcAddress L env name = (q, t1)"
    by (metis surj_pair)
  from assms I G have "p = q" "s1 = s'" "t = t0 @ t1"
    by (simp_all add: resolve_def)
  with True I G show ?thesis
    by (cases b) (simp_all add: wrapped_def LOAD_ENTRYPOINT_def call_through_def)
qed

lemma statics_update_same: "statics s var = p \<Longrightarrow> s\<lparr>statics := (statics s)(var := p)\<rparr> = s"
  by (cases s) auto

lemma members_update_same: "members ctx var = p \<Longrightarrow> ctx\<lparr>members := (members ctx)(var := p)\<rparr> = ctx"
  by (cases ctx) auto

lemma static_wrapped_exact:
  assumes "resolve env s name = (p, s1, t)"
  shows "static_wrapped b env name var returns args s =
           (if statics s var \<noteq> 0
            then (Inr (if returns then Some (call_entry_point env (statics s var) args) else None),
                  s, [EvCallThrough (statics s var) args])
            else if p \<noteq> 0
            then (Inr (if returns then Some (call_entry_point env p args) else None),
                  s1\<lparr>statics := (statics s)(var := p)\<rparr>, t @ [EvCallThrough p args])
            else (Inl (if b = Debug then AssertionFailed else NullCall), s1, t))"
proof -
  from resolve_trace [OF assms] have st: "statics s1 = statics s"
    by simp
  have same: "statics s var = 0 \<Longrightarrow> s1\<lparr>statics := (statics s)(var := 0)\<rparr> = s1"
    using st statics_update_same [of s1 var 0] by simp
  have keep: "s\<lparr>statics := (statics s)(var := statics s var)\<rparr> = s"
    by (rule statics_update_same) simp
  show ?thesis
    using st same keep by (simp add: static_wrapped_def wrapped_exact [OF assms])
qed

lemma member_wrapped_exact:
  assumes "resolve env s name = (p, s1, t)"
  shows "member_wrapped b env name var returns args ctx s =
           (if members ctx var \<noteq> 0
            then (Inr (if returns then Some (call_entry_point env (members ctx var) args) else None),
                  ctx, s, [EvCallThrough (members ctx var) args])
            else if p \<noteq> 0
            then (Inr (if returns then Some (call_entry_point env p args) else None),
                  ctx\<lparr>members := (members ctx)(var := p)\<rparr>, s1, t @ [EvCallThrough p args])
            else (Inl (if b = Debug then AssertionFailed else NullCall), ctx, s1, t))"
  by (simp add: member_wrapped_def wrapped_exact [OF assms] members_update_same)

lemma resolve_exists: "\<exists>p s1 t. resolve env s name = (p, s1, t)"
  by (metis prod_cases3)

lemma static_sequence_cached:
  "statics s var \<noteq> 0 \<Longrightarrow>
   static_sequence b name var returns calls s =
     (None, s, map (\<lambda>(e, a). EvCallThrough (statics s var) a) calls)"
proof (induction calls)
  case Nil
  then show ?case by simp
next
  case (Cons c calls)
  obtain env args where c: "c = (env, args)" by (cases c)
  obtain p s1 t where R: "resolve env s name = (p, s1, t)"
    using resolve_exists by blast
  from Cons c show ?case
    by (simp add: static_wrapped_exact [OF R])
qed

lemma member_sequence_cached:
  "members ctx var \<noteq> 0 \<Longrightarrow>
   member_sequence b name var returns calls ctx s =
     (None, ctx, s, map (\<lambda>(e, a). EvCallThrough (members ctx var) a) calls)"
proof (induction calls)
  case Nil
  then show ?case by simp
next
  case (Cons c calls)
  obtain env args where c: "c = (env, args)" by (cases c)
  obtain p s1 t where R: "resolve env s name = (p, s1, t)"
    using resolve_exists by blast
  from Cons c show ?case
    by (simp add: member_wrapped_exact [OF R])
qed

lemma resolve_fresh_fake:
  "map_of fake_extensions name = None \<or> map_of fake_extensions name = Some 1 \<Longrightarrow>
   resolve fake_driver initial_state name =
     (case map_of fake_exports name of Some a \<Rightarrow> a | None \<Rightarrow> 0,
      initial_state\<lparr>theInstance := Some fake_loader\<rparr>,
      [EvLoadLibraryA ''opengl32.dll'', EvGetProcAddress 0x10000000 ''wglGetProcAddress'',
       EvResolve name, EvExtensionQuery 0x500 name, EvGetProcAddress 0x10000000 name])"
  by (auto simp: resolve_def Loader_instance_def Loader_ctor_def getProcAddress_def
      fake_driver_def fake_loader_def fake_exports_def initial_state_def Let_def)

lemma entry_point_transcribed:
  "ep \<in> set context_entry_points \<or> ep \<in> set gl_entry_points \<Longrightarrow> transcribed ep"
  using context_entry_points_transcribed gl_entry_points_transcribed
  by (auto simp: list_all_iff)

lemma entry_point_argument_values:
  assumes "ep \<in> set context_entry_points \<or> ep \<in> set gl_entry_points"
    and "length vals = length (ep_params ep)"
  shows "argument_values ep vals = Some vals"
  using entry_point_transcribed [OF assms(1)] assms(2)
  by (simp add: transcribed_def argument_values_params)

lemma context_entry_point_resolves_or_cached:
  assumes "ep \<in> set context_entry_points" and "length vals = length (ep_params ep)"
  shows "\<exists>out ctx' s' t.
           context_entry_point b env ep ctx vals s = Some (out, ctx', s', t) \<and>
           (if members ctx (ep_var ep) = 0 then resolved_names t = [ep_name ep]
            else resolved_names t = [] \<and> calls_through t = [(members ctx (ep_var ep), vals)])"
proof -
  obtain p s1 t where R: "resolve env s (ep_name ep) = (p, s1, t)"
    using resolve_exists by blast
  from assms(1) have "ep \<in> set context_entry_points \<or> ep \<in> set gl_entry_points"
    by simp
  from entry_point_argument_values [OF this assms(2)] resolve_trace [OF R] show ?thesis
    by (simp add: context_entry_point_def member_wrapped_exact [OF R] resolved_names_append)
qed

text \<open>
  The wrappers written out above are what the tables give for their entries.
\<close>

lemma written_wrappers_in_tables:
  "\<lparr>ep_type = ''HGLRC'', ep_name = ''wglCreateContext'', ep_var = ''m_pfnWglCreateContext'',
     ep_params = [''hdc''], ep_args = [''hdc''], ep_returns = True\<rparr>
     \<in> set context_entry_points"
  "context_entry_point b env
     \<lparr>ep_type = ''HGLRC'', ep_name = ''wglCreateContext'', ep_var = ''m_pfnWglCreateContext'',
      ep_params = [''hdc''], ep_args = [''hdc''], ep_returns = True\<rparr> ctx [hdc] s =
   Some (wglCreateContext b env ctx hdc s)"
  "\<lparr>ep_type = ''BOOL'', ep_name = ''wglMakeCurrent'', ep_var = ''m_pfnWglMakeCurrent'',
     ep_params = [''hdc'', ''hglrc''], ep_args = [''hdc'', ''hglrc''], ep_returns = True\<rparr>
     \<in> set context_entry_points"
  "context_entry_point b env
     \<lparr>ep_type = ''BOOL'', ep_name = ''wglMakeCurrent'', ep_var = ''m_pfnWglMakeCurrent'',
      ep_params = [''hdc'', ''hglrc''], ep_args = [''hdc'', ''hglrc''], ep_returns = True\<rparr>
     ctx [hdc, hglrc] s =
   Some (wglMakeCurrent b env ctx hdc hglrc s)"
  "\<lparr>ep_type = ''GLenum'', ep_name = ''glGetError'', ep_var = ''pfnGetError'',
     ep_params = [], ep_args = [], ep_returns = True\<rparr>
     \<in> set gl_entry_points_2"
  "gl_entry_point b env
     \<lparr>ep_type = ''GLenum'', ep_name = ''glGetError'', ep_var = ''pfnGetError'',
      ep_params = [], ep_args = [], ep_returns = True\<rparr> [] s =
   Some (glGetError b env s)"
  "\<lparr>ep_type = ''void'', ep_name = ''glViewport'', ep_var = ''pfnViewport'',
     ep_params = [''x'', ''y'', ''width'', ''height''],
     ep_args = [''x'', ''y'', ''width'', ''height''], ep_returns = False\<rparr>
     \<in> set gl_entry_points_3"
  "gl_entry_point b env
     \<lparr>ep_type = ''void'', ep_name = ''glViewport'', ep_var = ''pfnViewport'',
      ep_params = [''x'', ''y'', ''width'', ''height''],
      ep_args = [''x'', ''y'', ''width'', ''height''], ep_returns = False\<rparr>
     [x, y, width, height] s =
   Some (glViewport b env x y width height s)"
  by (simp_all add: context_entry_points_def gl_entry_points_2_def gl_entry_points_3_def
      context_entry_point_def gl_entry_point_def argument_values_def
      wglCreateContext_def wglMakeCurrent_def glGetError_def glViewport_def)

section \<open>The per-symbol cache\<close>

text \<open>
  C2. Take any wrapper, free function or member function, and invoke it any number of
  times in sequence, each time with arguments of its own and under a platform of its
  own. Let \<open>p\<close> be the address that resolving the wrapper's name yields at the first
  invocation. If the pointer variable is empty and \<open>p\<close> is not null, the sequence runs
  to its end: the variable is assigned \<open>p\<close> by the first invocation, nothing else of the
  variables changes, the resolver is entered once, by the first invocation, and every
  invocation of the sequence calls through \<open>p\<close>, whatever the later platforms would
  answer. If the variable is empty and \<open>p\<close> is null, the first invocation ends the
  process (failed assertion in a debug build, call through the null pointer in a
  release build) with the variable still empty. If the variable is not empty, no
  invocation enters the resolver or assigns it: every invocation calls through the
  value it holds, and state and context are left as they were. An invocation of a
  wrapper with another variable leaves this variable alone.
\<close>

theorem cache_slot_written_once:
  assumes "resolve env s name = (p, s1, t)"
  shows "(statics s var = 0 \<and> p \<noteq> 0 \<longrightarrow>
            static_sequence b name var returns ((env, args) # rest) s =
              (None, s1\<lparr>statics := (statics s)(var := p)\<rparr>,
               t @ EvCallThrough p args # map (\<lambda>(e, a). EvCallThrough p a) rest)) \<and>
         (statics s var = 0 \<and> p = 0 \<longrightarrow>
            static_sequence b name var returns ((env, args) # rest) s =
              (Some (if b = Debug then AssertionFailed else NullCall), s1, t)) \<and>
         (statics s var \<noteq> 0 \<longrightarrow>
            static_sequence b name var returns calls s =
              (None, s, map (\<lambda>(e, a). EvCallThrough (statics s var) a) calls)) \<and>
         (members ctx var = 0 \<and> p \<noteq> 0 \<longrightarrow>
            member_sequence b name var returns ((env, args) # rest) ctx s =
              (None, ctx\<lparr>members := (members ctx)(var := p)\<rparr>, s1,
               t @ EvCallThrough p args # map (\<lambda>(e, a). EvCallThrough p a) rest)) \<and>
         (members ctx var = 0 \<and> p = 0 \<longrightarrow>
            member_sequence b name var returns ((env, args) # rest) ctx s =
              (Some (if b = Debug then AssertionFailed else NullCall), ctx, s1, t)) \<and>
         (members ctx var \<noteq> 0 \<longrightarrow>
            member_sequence b name var returns calls ctx s =
              (None, ctx, s, map (\<lambda>(e, a). EvCallThrough (members ctx var) a) calls)) \<and>
         resolved_names t = [name] \<and> calls_through t = [] \<and> statics s1 = statics s \<and>
         (var2 \<noteq> var \<longrightarrow>
            statics (fst (snd (static_wrapped b2 env2 name2 var2 returns2 args2 s))) var =
              statics s var) \<and>
         (var2 \<noteq> var \<longrightarrow>
            members (fst (snd (member_wrapped b2 env2 name2 var2 returns2 args2 ctx s))) var =
              members ctx var)"
proof (intro conjI impI)
  assume a: "statics s var = 0 \<and> p \<noteq> 0"
  let ?s = "s1\<lparr>statics := (statics s)(var := p)\<rparr>"
  from a have "statics ?s var \<noteq> 0" by simp
  from static_sequence_cached [OF this, of b name returns rest] a
  show "static_sequence b name var returns ((env, args) # rest) s =
          (None, ?s, t @ EvCallThrough p args # map (\<lambda>(e, a). EvCallThrough p a) rest)"
    by (simp add: static_wrapped_exact [OF assms])
next
  assume "statics s var = 0 \<and> p = 0"
  then show "static_sequence b name var returns ((env, args) # rest) s =
          (Some (if b = Debug then AssertionFailed else NullCall), s1, t)"
    by (simp add: static_wrapped_exact [OF assms])
next
  assume "statics s var \<noteq> 0"
  then show "static_sequence b name var returns calls s =
          (None, s, map (\<lambda>(e, a). EvCallThrough (statics s var) a) calls)"
    by (rule static_sequence_cached)
next
  assume a: "members ctx var = 0 \<and> p \<noteq> 0"
  let ?c = "ctx\<lparr>members := (members ctx)(var := p)\<rparr>"
  from a have "members ?c var \<noteq> 0" by simp
  from member_sequence_cached [OF this, of b name returns rest s1] a
  show "member_sequence b name var returns ((env, args) # rest) ctx s =
          (None, ?c, s1, t @ EvCallThrough p args # map (\<lambda>(e, a). EvCallThrough p a) rest)"
    by (simp add: member_wrapped_exact [OF assms])
next
  assume "members ctx var = 0 \<and> p = 0"
  then show "member_sequence b name var returns ((env, args) # rest) ctx s =
          (Some (if b = Debug then AssertionFailed else NullCall), ctx, s1, t)"
    by (simp add: member_wrapped_exact [OF assms])
next
  assume "members ctx var \<noteq> 0"
  then show "member_sequence b name var returns calls ctx s =
          (None, ctx, s, map (\<lambda>(e, a). EvCallThrough (members ctx var) a) calls)"
    by (rule member_sequence_cached)
next
  from resolve_trace [OF assms]
  show "resolved_names t = [name]" "calls_through t = []" "statics s1 = statics s"
    by simp_all
next
  assume n: "var2 \<noteq> var"
  obtain q s2 u where R: "resolve env2 s name2 = (q, s2, u)"
    using resolve_exists by blast
  from resolve_trace [OF R] n
  show "statics (fst (snd (static_wrapped b2 env2 name2 var2 returns2 args2 s))) var =
          statics s var"
    by (simp add: static_wrapped_exact [OF R])
next
  assume n: "var2 \<noteq> var"
  obtain q s2 u where R: "resolve env2 s name2 = (q, s2, u)"
    using resolve_exists by blast
  from n
  show "members (fst (snd (member_wrapped b2 env2 name2 var2 returns2 args2 ctx s))) var =
          members ctx var"
    by (simp add: member_wrapped_exact [OF R])
qed

theorem cache_slot_written_once_witness:
  "resolve fake_driver initial_state ''glGetError'' =
     (0x2000, initial_state\<lparr>theInstance := Some fake_loader\<rparr>,
      [EvLoadLibraryA ''opengl32.dll'', EvGetProcAddress 0x10000000 ''wglGetProcAddress'',
       EvResolve ''glGetError'', EvExtensionQuery 0x500 ''glGetError'',
       EvGetProcAddress 0x10000000 ''glGetError'']) \<and>
   fst (resolve changed_driver (initial_state\<lparr>theInstance := Some fake_loader\<rparr>)
          ''glGetError'') = 0x9000 \<and>
   static_sequence Release ''glGetError'' ''pfnGetError'' True
       [(fake_driver, []), (changed_driver, [])] initial_state =
     (None,
      initial_state\<lparr>theInstance := Some fake_loader,
        statics := (statics initial_state)(''pfnGetError'' := 0x2000)\<rparr>,
      [EvLoadLibraryA ''opengl32.dll'', EvGetProcAddress 0x10000000 ''wglGetProcAddress'',
       EvResolve ''glGetError'', EvExtensionQuery 0x500 ''glGetError'',
       EvGetProcAddress 0x10000000 ''glGetError'',
       EvCallThrough 0x2000 [], EvCallThrough 0x2000 []]) \<and>
   member_sequence Debug ''glGetError'' ''m_pfnX'' True
       [(fake_driver, [5]), (changed_driver, [6])] new_OpenGLContext initial_state =
     (None,
      new_OpenGLContext\<lparr>members := (members new_OpenGLContext)(''m_pfnX'' := 0x2000)\<rparr>,
      initial_state\<lparr>theInstance := Some fake_loader\<rparr>,
      [EvLoadLibraryA ''opengl32.dll'', EvGetProcAddress 0x10000000 ''wglGetProcAddress'',
       EvResolve ''glGetError'', EvExtensionQuery 0x500 ''glGetError'',
       EvGetProcAddress 0x10000000 ''glGetError'',
       EvCallThrough 0x2000 [5], EvCallThrough 0x2000 [6]]) \<and>
   static_sequence Debug ''fnC'' ''pfnC'' False [(fake_driver, [1, 2])] initial_state =
     (Some AssertionFailed, initial_state\<lparr>theInstance := Some fake_loader\<rparr>,
      [EvLoadLibraryA ''opengl32.dll'', EvGetProcAddress 0x10000000 ''wglGetProcAddress'',
       EvResolve ''fnC'', EvExtensionQuery 0x500 ''fnC'',
       EvGetProcAddress 0x10000000 ''fnC'']) \<and>
   member_sequence Release ''fnC'' ''m_pfnC'' False [(fake_driver, [1, 2])] new_OpenGLContext
       initial_state =
     (Some NullCall, new_OpenGLContext, initial_state\<lparr>theInstance := Some fake_loader\<rparr>,
      [EvLoadLibraryA ''opengl32.dll'', EvGetProcAddress 0x10000000 ''wglGetProcAddress'',
       EvResolve ''fnC'', EvExtensionQuery 0x500 ''fnC'',
       EvGetProcAddress 0x10000000 ''fnC'']) \<and>
   static_sequence Debug ''glGetError'' ''pfnGetError'' True [(changed_driver, [])]
       (initial_state\<lparr>statics := (statics initial_state)(''pfnGetError'' := 0x2000)\<rparr>) =
     (None, initial_state\<lparr>statics := (statics initial_state)(''pfnGetError'' := 0x2000)\<rparr>,
      [EvCallThrough 0x2000 []]) \<and>
   member_sequence Debug ''glGetError'' ''m_pfnX'' True [(changed_driver, [7])]
       (new_OpenGLContext\<lparr>members := (members new_OpenGLContext)(''m_pfnX'' := 0x2000)\<rparr>)
       initial_state =
     (None, new_OpenGLContext\<lparr>members := (members new_OpenGLContext)(''m_pfnX'' := 0x2000)\<rparr>,
      initial_state, [EvCallThrough 0x2000 [7]]) \<and>
   statics (fst (snd (static_wrapped Release fake_driver ''glGetError'' ''pfnGetError'' True []
       (initial_state\<lparr>statics := (statics initial_state)(''pfnClear'' := 0x7000)\<rparr>))))
     ''pfnClear'' = 0x7000"
proof -
  let ?s1 = "initial_state\<lparr>theInstance := Some fake_loader\<rparr>"
  let ?sc = "initial_state\<lparr>statics := (statics initial_state)(''pfnGetError'' := 0x2000)\<rparr>"
  let ?so = "initial_state\<lparr>statics := (statics initial_state)(''pfnClear'' := 0x7000)\<rparr>"
  let ?cc = "new_OpenGLContext\<lparr>members := (members new_OpenGLContext)(''m_pfnX'' := 0x2000)\<rparr>"
  have R: "resolve fake_driver initial_state ''glGetError'' =
     (0x2000, ?s1,
      [EvLoadLibraryA ''opengl32.dll'', EvGetProcAddress 0x10000000 ''wglGetProcAddress'',
       EvResolve ''glGetError'', EvExtensionQuery 0x500 ''glGetError'',
       EvGetProcAddress 0x10000000 ''glGetError''])"
    by (simp add: resolve_fresh_fake fake_extensions_def fake_exports_def)
  have RC: "resolve fake_driver initial_state ''fnC'' =
     (0, ?s1,
      [EvLoadLibraryA ''opengl32.dll'', EvGetProcAddress 0x10000000 ''wglGetProcAddress'',
       EvResolve ''fnC'', EvExtensionQuery 0x500 ''fnC'',
       EvGetProcAddress 0x10000000 ''fnC''])"
    by (simp add: resolve_fresh_fake fake_extensions_def fake_exports_def)
  obtain q1 u1 v1 where Rc: "resolve changed_driver ?sc ''glGetError'' = (q1, u1, v1)"
    by (metis prod_cases3)
  obtain q2 u2 v2 where Rm: "resolve changed_driver initial_state ''glGetError'' = (q2, u2, v2)"
    by (metis prod_cases3)
  obtain q3 u3 v3 where Ro: "resolve fake_driver ?so ''glGetError'' = (q3, u3, v3)"
    by (metis prod_cases3)
  have other: "fst (resolve changed_driver ?s1 ''glGetError'') = 0x9000"
    by (simp add: resolve_def Loader_instance_def getProcAddress_def changed_driver_def
        fake_driver_def fake_loader_def initial_state_def)
  have e: "statics initial_state ''pfnGetError'' = 0" "statics initial_state ''pfnC'' = 0"
    "members new_OpenGLContext ''m_pfnX'' = 0" "members new_OpenGLContext ''m_pfnC'' = 0"
    by (simp_all add: initial_state_def new_OpenGLContext_def)
  note first = cache_slot_written_once
    [OF R, where var = "''pfnGetError''" and b = Release and returns = True and args = "[]"
      and rest = "[(changed_driver, [])]", THEN conjunct1, rule_format]
  note firstm = cache_slot_written_once
    [OF R, where var = "''m_pfnX''" and b = Debug and returns = True and args = "[5]"
      and rest = "[(changed_driver, [6])]" and ctx = new_OpenGLContext,
      THEN conjunct2, THEN conjunct2, THEN conjunct2, THEN conjunct1, rule_format]
  note null = cache_slot_written_once
    [OF RC, where var = "''pfnC''" and b = Debug and returns = False and args = "[1, 2]"
      and rest = "[]", THEN conjunct2, THEN conjunct1, rule_format]
  note nullm = cache_slot_written_once
    [OF RC, where var = "''m_pfnC''" and b = Release and returns = False and args = "[1, 2]"
      and rest = "[]" and ctx = new_OpenGLContext,
      THEN conjunct2, THEN conjunct2, THEN conjunct2, THEN conjunct2, THEN conjunct1,
      rule_format]
  note cached = cache_slot_written_once
    [OF Rc, where var = "''pfnGetError''" and b = Debug and returns = True
      and calls = "[(changed_driver, [])]", THEN conjunct2, THEN conjunct2, THEN conjunct1,
      rule_format]
  note cachedm = cache_slot_written_once
    [OF Rm, where var = "''m_pfnX''" and b = Debug and returns = True
      and calls = "[(changed_driver, [7])]" and ctx = ?cc,
      THEN conjunct2, THEN conjunct2, THEN conjunct2, THEN conjunct2, THEN conjunct2,
      THEN conjunct1, rule_format]
  note frame = cache_slot_written_once
    [OF Ro, where var = "''pfnClear''" and ?var2.0 = "''pfnGetError''" and ?b2.0 = Release
      and ?env2.0 = fake_driver and ?name2.0 = "''glGetError''" and ?returns2.0 = True
      and ?args2.0 = "[]",
      THEN conjunct2, THEN conjunct2, THEN conjunct2, THEN conjunct2, THEN conjunct2,
      THEN conjunct2, THEN conjunct2, THEN conjunct2, THEN conjunct2, THEN conjunct1,
      rule_format]
  have a: "static_sequence Release ''glGetError'' ''pfnGetError'' True
       [(fake_driver, []), (changed_driver, [])] initial_state =
     (None, ?s1\<lparr>statics := (statics initial_state)(''pfnGetError'' := 0x2000)\<rparr>,
      [EvLoadLibraryA ''opengl32.dll'', EvGetProcAddress 0x10000000 ''wglGetProcAddress'',
       EvResolve ''glGetError'', EvExtensionQuery 0x500 ''glGetError'',
       EvGetProcAddress 0x10000000 ''glGetError'',
       EvCallThrough 0x2000 [], EvCallThrough 0x2000 []])"
    using first e by simp
  have b: "member_sequence Debug ''glGetError'' ''m_pfnX'' True
       [(fake_driver, [5]), (changed_driver, [6])] new_OpenGLContext initial_state =
     (None, ?cc, ?s1,
      [EvLoadLibraryA ''opengl32.dll'', EvGetProcAddress 0x10000000 ''wglGetProcAddress'',
       EvResolve ''glGetError'', EvExtensionQuery 0x500 ''glGetError'',
       EvGetProcAddress 0x10000000 ''glGetError'',
       EvCallThrough 0x2000 [5], EvCallThrough 0x2000 [6]])"
    using firstm e by simp
  have c: "static_sequence Debug ''fnC'' ''pfnC'' False [(fake_driver, [1, 2])] initial_state =
     (Some AssertionFailed, ?s1,
      [EvLoadLibraryA ''opengl32.dll'', EvGetProcAddress 0x10000000 ''wglGetProcAddress'',
       EvResolve ''fnC'', EvExtensionQuery 0x500 ''fnC'',
       EvGetProcAddress 0x10000000 ''fnC''])"
    using null e by simp
  have d: "member_sequence Release ''fnC'' ''m_pfnC'' False [(fake_driver, [1, 2])]
       new_OpenGLContext initial_state =
     (Some NullCall, new_OpenGLContext, ?s1,
      [EvLoadLibraryA ''opengl32.dll'', EvGetProcAddress 0x10000000 ''wglGetProcAddress'',
       EvResolve ''fnC'', EvExtensionQuery 0x500 ''fnC'',
       EvGetProcAddress 0x10000000 ''fnC''])"
    using nullm e by simp
  have f: "static_sequence Debug ''glGetError'' ''pfnGetError'' True [(changed_driver, [])] ?sc =
     (None, ?sc, [EvCallThrough 0x2000 []])"
    using cached by simp
  have g: "member_sequence Debug ''glGetError'' ''m_pfnX'' True [(changed_driver, [7])] ?cc
       initial_state = (None, ?cc, initial_state, [EvCallThrough 0x2000 [7]])"
    using cachedm by simp
  have h: "statics (fst (snd (static_wrapped Release fake_driver ''glGetError'' ''pfnGetError''
       True [] ?so))) ''pfnClear'' = 0x7000"
    using frame by simp
  from R other a b c d f g h show ?thesis
    by simp
qed

section \<open>Resolution that fails\<close>

text \<open>
  C9. A loader whose extension-query pointer is null (the constructor leaves it null
  when the library did not load or does not export \<^verbatim>\<open>wglGetProcAddress\<close>) resolves every
  name to null at once: the resolver is entered and returns without the extension
  query and without the direct lookup of the name, whatever the library handle is.
\<close>

theorem getProcAddress_without_extension_query:
  assumes "m_pfnWglGetProcAddress L = 0"
  shows "getProcAddress L env name = (0, [EvResolve name])"
  using assms by (simp add: getProcAddress_def)

theorem getProcAddress_without_extension_query_witness:
  "m_pfnWglGetProcAddress (fake_loader\<lparr>m_pfnWglGetProcAddress := 0\<rparr>) = 0 \<and>
   m_hLibGL (fake_loader\<lparr>m_pfnWglGetProcAddress := 0\<rparr>) = 0x10000000 \<and>
   GetProcAddress fake_driver 0x10000000 ''glGetError'' = 0x2000 \<and>
   getProcAddress (fake_loader\<lparr>m_pfnWglGetProcAddress := 0\<rparr>) fake_driver ''glGetError'' =
     (0, [EvResolve ''glGetError''])"
proof -
  have h: "m_pfnWglGetProcAddress (fake_loader\<lparr>m_pfnWglGetProcAddress := 0\<rparr>) = 0"
    by simp
  from getProcAddress_without_extension_query [OF h, of fake_driver "''glGetError''"]
  show ?thesis
    by (simp add: fake_loader_def fake_driver_def fake_exports_def)
qed

text \<open>
  C4. Let the loader hold an extension-query function. For a name that the extension
  query answers with null or a reserved pattern, and that the direct lookup does not
  find, \<^verbatim>\<open>Loader::getProcAddress\<close> returns null after the two lookups, and so does
  \<^verbatim>\<open>OpenGLContext::wglGetProcAddress\<close>; neither has an assertion or any other way to
  end the process. The macro of the per-symbol wrappers leaves its variable null and
  goes on in a release build; in a debug build its assertion fails.
\<close>

theorem both_tiers_fail:
  assumes "Loader_instance env s = (L, s', t0)"
    and "m_pfnWglGetProcAddress L \<noteq> 0"
    and "extension_query_failed
           (call_PFNWGLGETPROCADDRESSPROC env (m_pfnWglGetProcAddress L) name)"
    and "GetProcAddress env (m_hLibGL L) name = 0"
  shows "getProcAddress L env name =
           (0, [EvResolve name, EvExtensionQuery (m_pfnWglGetProcAddress L) name,
                EvGetProcAddress (m_hLibGL L) name]) \<and>
         wglGetProcAddress env ctx name s =
           (0, ctx, s',
            t0 @ [EvResolve name, EvExtensionQuery (m_pfnWglGetProcAddress L) name,
                  EvGetProcAddress (m_hLibGL L) name]) \<and>
         LOAD_ENTRYPOINT Release env name 0 s =
           (None, 0, s',
            t0 @ [EvResolve name, EvExtensionQuery (m_pfnWglGetProcAddress L) name,
                  EvGetProcAddress (m_hLibGL L) name]) \<and>
         LOAD_ENTRYPOINT Debug env name 0 s =
           (Some AssertionFailed, 0, s',
            t0 @ [EvResolve name, EvExtensionQuery (m_pfnWglGetProcAddress L) name,
                  EvGetProcAddress (m_hLibGL L) name])"
proof -
  from assms(2-4) have G: "getProcAddress L env name =
           (0, [EvResolve name, EvExtensionQuery (m_pfnWglGetProcAddress L) name,
                EvGetProcAddress (m_hLibGL L) name])"
    by (simp add: getProcAddress_def extension_query_failed_def reserved_sentinel_def Let_def)
  with assms(1) show ?thesis
    by (simp add: wglGetProcAddress_def LOAD_ENTRYPOINT_def)
qed

theorem both_tiers_fail_witness:
  "Loader_instance fake_driver initial_state =
     (fake_loader, initial_state\<lparr>theInstance := Some fake_loader\<rparr>,
      [EvLoadLibraryA ''opengl32.dll'', EvGetProcAddress 0x10000000 ''wglGetProcAddress'']) \<and>
   getProcAddress fake_loader fake_driver ''fnC'' =
     (0, [EvResolve ''fnC'', EvExtensionQuery 0x500 ''fnC'',
          EvGetProcAddress 0x10000000 ''fnC'']) \<and>
   wglGetProcAddress fake_driver new_OpenGLContext ''fnC'' initial_state =
     (0, new_OpenGLContext, initial_state\<lparr>theInstance := Some fake_loader\<rparr>,
      [EvLoadLibraryA ''opengl32.dll'', EvGetProcAddress 0x10000000 ''wglGetProcAddress'',
       EvResolve ''fnC'', EvExtensionQuery 0x500 ''fnC'',
       EvGetProcAddress 0x10000000 ''fnC'']) \<and>
   fst (LOAD_ENTRYPOINT Release fake_driver ''fnC'' 0 initial_state) = None \<and>
   fst (LOAD_ENTRYPOINT Debug fake_driver ''fnC'' 0 initial_state) = Some AssertionFailed"
proof -
  have I: "Loader_instance fake_driver initial_state =
     (fake_loader, initial_state\<lparr>theInstance := Some fake_loader\<rparr>,
      [EvLoadLibraryA ''opengl32.dll'', EvGetProcAddress 0x10000000 ''wglGetProcAddress''])"
    by (simp add: Loader_instance_def Loader_ctor_def fake_driver_def fake_loader_def
        fake_exports_def initial_state_def Let_def)
  have p: "m_pfnWglGetProcAddress fake_loader \<noteq> 0"
    by (simp add: fake_loader_def)
  have q: "extension_query_failed
             (call_PFNWGLGETPROCADDRESSPROC fake_driver (m_pfnWglGetProcAddress fake_loader) ''fnC'')"
    by (simp add: extension_query_failed_def fake_driver_def fake_loader_def fake_extensions_def)
  have d: "GetProcAddress fake_driver (m_hLibGL fake_loader) ''fnC'' = 0"
    by (simp add: fake_driver_def fake_loader_def fake_exports_def)
  from both_tiers_fail [OF I p q d, of new_OpenGLContext] I show ?thesis
    by (simp add: fake_loader_def)
qed

section \<open>The uncached wrapper\<close>

text \<open>
  C10. Two invocations of \<^verbatim>\<open>OpenGLContext::wglGetProcAddress\<close> in sequence, for the same
  name, each enter the resolver: the first returns what \<^verbatim>\<open>Loader::getProcAddress\<close>
  returns under the platform of the first invocation, the second what it returns under
  the platform of the second. The context object and the static pointers are left as
  they were, so nothing is remembered from one invocation to the next; the function is
  not among the wrapped member functions, which keep a pointer each.
\<close>

theorem wglGetProcAddress_not_cached:
  assumes "wglGetProcAddress env1 ctx name s = (p1, ctx1, s1, t1)"
    and "wglGetProcAddress env2 ctx1 name s1 = (p2, ctx2, s2, t2)"
  shows "ctx1 = ctx \<and> ctx2 = ctx \<and> statics s2 = statics s \<and> s2 = s1 \<and>
         resolved_names t1 = [name] \<and> resolved_names t2 = [name] \<and>
         ''wglGetProcAddress'' \<notin> set (map ep_name context_entry_points) \<and>
         (\<exists>L u. Loader_instance env1 s = (L, s1, u) \<and>
              p1 = fst (getProcAddress L env1 name) \<and>
              t1 = u @ snd (getProcAddress L env1 name) \<and>
              (p2, t2) = getProcAddress L env2 name)"
proof -
  obtain L u where I1: "Loader_instance env1 s = (L, s1, u)"
    using assms(1) by (auto simp: wglGetProcAddress_def split: prod.splits)
  have held: "theInstance s1 = Some L" and st: "statics s1 = statics s"
    using I1 by (auto simp: Loader_instance_def split: option.splits prod.splits)
  have r1: "resolved_names u = []"
    using resolved_names_Loader_instance [OF I1] by simp
  from assms(1) I1 have one: "ctx1 = ctx" "p1 = fst (getProcAddress L env1 name)"
    "t1 = u @ snd (getProcAddress L env1 name)"
    by (auto simp: wglGetProcAddress_def split: prod.splits)
  from assms(2) Loader_instance_held [OF held, of env2]
  have two: "ctx2 = ctx1" "s2 = s1" "(p2, t2) = getProcAddress L env2 name"
    by (auto simp: wglGetProcAddress_def split: prod.splits)
  have n1: "resolved_names (snd (getProcAddress L env1 name)) = [name]"
    using getProcAddress_trace [of L env1 name] by (metis prod.collapse)
  have n2: "resolved_names t2 = [name]"
    using getProcAddress_trace [of L env2 name p2 t2] two(3) by simp
  have none: "''wglGetProcAddress'' \<notin> set (map ep_name context_entry_points)"
    by (simp add: context_entry_points_def)
  from one two held st r1 n1 n2 I1 none show ?thesis
    by (simp add: resolved_names_append)
qed

theorem wglGetProcAddress_not_cached_witness:
  "wglGetProcAddress fake_driver new_OpenGLContext ''glGetError'' initial_state =
     (0x2000, new_OpenGLContext, initial_state\<lparr>theInstance := Some fake_loader\<rparr>,
      [EvLoadLibraryA ''opengl32.dll'', EvGetProcAddress 0x10000000 ''wglGetProcAddress'',
       EvResolve ''glGetError'', EvExtensionQuery 0x500 ''glGetError'',
       EvGetProcAddress 0x10000000 ''glGetError'']) \<and>
   wglGetProcAddress changed_driver new_OpenGLContext ''glGetError''
       (initial_state\<lparr>theInstance := Some fake_loader\<rparr>) =
     (0x9000, new_OpenGLContext, initial_state\<lparr>theInstance := Some fake_loader\<rparr>,
      [EvResolve ''glGetError'', EvExtensionQuery 0x500 ''glGetError''])"
proof -
  have a: "wglGetProcAddress fake_driver new_OpenGLContext ''glGetError'' initial_state =
     (0x2000, new_OpenGLContext, initial_state\<lparr>theInstance := Some fake_loader\<rparr>,
      [EvLoadLibraryA ''opengl32.dll'', EvGetProcAddress 0x10000000 ''wglGetProcAddress'',
       EvResolve ''glGetError'', EvExtensionQuery 0x500 ''glGetError'',
       EvGetProcAddress 0x10000000 ''glGetError''])"
    by (simp add: wglGetProcAddress_def Loader_instance_def Loader_ctor_def getProcAddress_def
        fake_driver_def fake_loader_def fake_exports_def fake_extensions_def
        initial_state_def Let_def)
  have b: "wglGetProcAddress changed_driver new_OpenGLContext ''glGetError''
       (initial_state\<lparr>theInstance := Some fake_loader\<rparr>) =
     (0x9000, new_OpenGLContext, initial_state\<lparr>theInstance := Some fake_loader\<rparr>,
      [EvResolve ''glGetError'', EvExtensionQuery 0x500 ''glGetError''])"
    by (simp add: wglGetProcAddress_def Loader_instance_def getProcAddress_def
        changed_driver_def fake_driver_def fake_loader_def initial_state_def Let_def)
  from wglGetProcAddress_not_cached [OF a b] a b show ?thesis
    by simp
qed

section \<open>The context factory\<close>

text \<open>
  C7. When \<^verbatim>\<open>GetDC\<close> gives no device context for the window,
  \<^verbatim>\<open>OpenGLContext::createForWindow\<close> returns the empty pointer, and the call of \<^verbatim>\<open>GetDC\<close>
  is the only call it has made: no pixel format is chosen or set and the resolver is
  not entered.
\<close>

theorem createForWindow_without_device_context:
  assumes "GetDC env hWnd = 0"
  shows "createForWindow env hWnd pfd = (None, [EvGetDC hWnd])"
  using assms by (simp add: createForWindow_def Let_def)

theorem createForWindow_without_device_context_witness:
  "GetDC fake_driver 0xDEAD = 0 \<and>
   createForWindow fake_driver 0xDEAD () = (None, [EvGetDC 0xDEAD]) \<and>
   resolved_names (snd (createForWindow fake_driver 0xDEAD ())) = []"
proof -
  have h: "GetDC fake_driver 0xDEAD = 0"
    by (simp add: fake_driver_def)
  from h createForWindow_without_device_context [OF h, of "()"] show ?thesis
    by simp
qed

text \<open>
  C6. Pixel format indexes of the platform are one-based and \<open>0\<close> is what
  \<^verbatim>\<open>ChoosePixelFormat\<close> returns when no format matches; \<^verbatim>\<open>SetPixelFormat\<close> does not accept
  index \<open>0\<close>. On such a platform, when no format matches or when setting the chosen
  format fails, \<^verbatim>\<open>OpenGLContext::createForWindow\<close> returns the empty pointer. The source
  hands the index to \<^verbatim>\<open>SetPixelFormat\<close> without looking at it, so the first case is
  reported through the failure of \<^verbatim>\<open>SetPixelFormat\<close>. The calls made are those of
  \<^verbatim>\<open>GetDC\<close>, \<^verbatim>\<open>ChoosePixelFormat\<close> and \<^verbatim>\<open>SetPixelFormat\<close> at most: the resolver is not
  entered, nothing is called through an entry point (no rendering context is created)
  and the driver library is not touched.
\<close>

theorem createForWindow_format_failure:
  assumes "SetPixelFormat env (GetDC env hWnd) 0 pfd = 0"
    and "ChoosePixelFormat env (GetDC env hWnd) pfd = 0 \<or>
         SetPixelFormat env (GetDC env hWnd) (ChoosePixelFormat env (GetDC env hWnd) pfd) pfd = 0"
  shows "createForWindow env hWnd pfd =
           (None,
            if GetDC env hWnd = 0 then [EvGetDC hWnd]
            else [EvGetDC hWnd, EvChoosePixelFormat (GetDC env hWnd) pfd,
                  EvSetPixelFormat (GetDC env hWnd)
                    (ChoosePixelFormat env (GetDC env hWnd) pfd) pfd]) \<and>
         resolved_names (snd (createForWindow env hWnd pfd)) = [] \<and>
         calls_through (snd (createForWindow env hWnd pfd)) = [] \<and>
         library_calls (snd (createForWindow env hWnd pfd)) = []"
proof -
  from assms
  have "SetPixelFormat env (GetDC env hWnd) (ChoosePixelFormat env (GetDC env hWnd) pfd) pfd = 0"
    by auto
  then show ?thesis
    by (simp add: createForWindow_def Let_def)
qed

theorem createForWindow_format_failure_witness:
  "SetPixelFormat (fake_driver\<lparr>ChoosePixelFormat := (\<lambda>hDC pfd. 0)\<rparr>)
     (GetDC (fake_driver\<lparr>ChoosePixelFormat := (\<lambda>hDC pfd. 0)\<rparr>) 0x20) 0 () = 0 \<and>
   ChoosePixelFormat (fake_driver\<lparr>ChoosePixelFormat := (\<lambda>hDC pfd. 0)\<rparr>)
     (GetDC (fake_driver\<lparr>ChoosePixelFormat := (\<lambda>hDC pfd. 0)\<rparr>) 0x20) () = 0 \<and>
   createForWindow (fake_driver\<lparr>ChoosePixelFormat := (\<lambda>hDC pfd. 0)\<rparr>) 0x20 () =
     (None, [EvGetDC 0x20, EvChoosePixelFormat 0x21 (), EvSetPixelFormat 0x21 0 ()]) \<and>
   ChoosePixelFormat (fake_driver\<lparr>SetPixelFormat := (\<lambda>hDC pf pfd. 0)\<rparr>) 0x21 () = 7 \<and>
   SetPixelFormat (fake_driver\<lparr>SetPixelFormat := (\<lambda>hDC pf pfd. 0)\<rparr>) 0x21 7 () = 0 \<and>
   createForWindow (fake_driver\<lparr>SetPixelFormat := (\<lambda>hDC pf pfd. 0)\<rparr>) 0x20 () =
     (None, [EvGetDC 0x20, EvChoosePixelFormat 0x21 (), EvSetPixelFormat 0x21 7 ()])"
proof -
  let ?nf = "fake_driver\<lparr>ChoosePixelFormat := (\<lambda>hDC pfd. 0)\<rparr>"
  let ?sf = "fake_driver\<lparr>SetPixelFormat := (\<lambda>hDC pf pfd. 0)\<rparr>"
  have dc: "GetDC ?nf 0x20 = 0x21" "GetDC ?sf 0x20 = 0x21"
    by (simp_all add: fake_driver_def)
  have a1: "SetPixelFormat ?nf (GetDC ?nf 0x20) 0 () = 0"
    by (simp add: fake_driver_def)
  have a2: "ChoosePixelFormat ?nf (GetDC ?nf 0x20) () = 0 \<or>
      SetPixelFormat ?nf (GetDC ?nf 0x20) (ChoosePixelFormat ?nf (GetDC ?nf 0x20) ()) () = 0"
    by simp
  have b1: "SetPixelFormat ?sf (GetDC ?sf 0x20) 0 () = 0"
    by simp
  have b2: "ChoosePixelFormat ?sf (GetDC ?sf 0x20) () = 0 \<or>
      SetPixelFormat ?sf (GetDC ?sf 0x20) (ChoosePixelFormat ?sf (GetDC ?sf 0x20) ()) () = 0"
    by simp
  have c7: "ChoosePixelFormat ?sf 0x21 () = 7"
    by (simp add: fake_driver_def)
  from createForWindow_format_failure [OF a1 a2] createForWindow_format_failure [OF b1 b2]
    dc a1 c7
  show ?thesis
    by simp
qed

section \<open>Forwarding\<close>

text \<open>
  C8. Every wrapped entry point of the source, member function of the context or gl
  function, invoked with as many values as it has parameters, does exactly this. If its
  pointer variable is not empty, it makes one call, through the address the variable
  holds, with exactly the values given, in their order; it returns the result of that
  call where the function returns one, and changes nothing. If the variable is empty,
  it resolves its own name; when the address \<open>p\<close> it gets is not null it stores \<open>p\<close>
  in the variable, makes one call through \<open>p\<close> with exactly the values given, after
  the calls of the resolution (none of which is a call through an entry point), and
  returns the result of that call; when \<open>p\<close> is null the process ends without a
  call. Every entry of the tables passes its parameters in the order of the
  declaration and returns the call's result unless it is declared \<^verbatim>\<open>void\<close>. The
  wrappers \<^verbatim>\<open>wglCreateContext\<close> and \<^verbatim>\<open>glGetError\<close>, as written, behave so.
\<close>

theorem wrappers_forward_arguments:
  "(\<forall>ep \<in> set context_entry_points. \<forall>vals p s1 t.
      length vals = length (ep_params ep) \<longrightarrow>
      resolve env s (ep_name ep) = (p, s1, t) \<longrightarrow>
      calls_through t = [] \<and>
      context_entry_point b env ep ctx vals s =
        Some (if members ctx (ep_var ep) \<noteq> 0
              then (Inr (if ep_returns ep
                         then Some (call_entry_point env (members ctx (ep_var ep)) vals)
                         else None),
                    ctx, s, [EvCallThrough (members ctx (ep_var ep)) vals])
              else if p \<noteq> 0
              then (Inr (if ep_returns ep then Some (call_entry_point env p vals) else None),
                    ctx\<lparr>members := (members ctx)(ep_var ep := p)\<rparr>, s1,
                    t @ [EvCallThrough p vals])
              else (Inl (if b = Debug then AssertionFailed else NullCall), ctx, s1, t))) \<and>
   (\<forall>ep \<in> set gl_entry_points. \<forall>vals p s1 t.
      length vals = length (ep_params ep) \<longrightarrow>
      resolve env s (ep_name ep) = (p, s1, t) \<longrightarrow>
      calls_through t = [] \<and>
      gl_entry_point b env ep vals s =
        Some (if statics s (ep_var ep) \<noteq> 0
              then (Inr (if ep_returns ep
                         then Some (call_entry_point env (statics s (ep_var ep)) vals)
                         else None),
                    s, [EvCallThrough (statics s (ep_var ep)) vals])
              else if p \<noteq> 0
              then (Inr (if ep_returns ep then Some (call_entry_point env p vals) else None),
                    s1\<lparr>statics := (statics s)(ep_var ep := p)\<rparr>,
                    t @ [EvCallThrough p vals])
              else (Inl (if b = Debug then AssertionFailed else NullCall), s1, t))) \<and>
   (\<forall>ep \<in> set (context_entry_points @ gl_entry_points).
      ep_args ep = ep_params ep \<and> (ep_returns ep \<longleftrightarrow> ep_type ep \<noteq> ''void'')) \<and>
   (\<forall>p s1 t. resolve env s ''wglCreateContext'' = (p, s1, t) \<longrightarrow>
      wglCreateContext b env ctx hdc s =
        (if members ctx ''m_pfnWglCreateContext'' \<noteq> 0
         then (Inr (Some (call_entry_point env (members ctx ''m_pfnWglCreateContext'') [hdc])),
               ctx, s, [EvCallThrough (members ctx ''m_pfnWglCreateContext'') [hdc]])
         else if p \<noteq> 0
         then (Inr (Some (call_entry_point env p [hdc])),
               ctx\<lparr>members := (members ctx)(''m_pfnWglCreateContext'' := p)\<rparr>, s1,
               t @ [EvCallThrough p [hdc]])
         else (Inl (if b = Debug then AssertionFailed else NullCall), ctx, s1, t))) \<and>
   (\<forall>p s1 t. resolve env s ''glGetError'' = (p, s1, t) \<longrightarrow>
      glGetError b env s =
        (if statics s ''pfnGetError'' \<noteq> 0
         then (Inr (Some (call_entry_point env (statics s ''pfnGetError'') [])),
               s, [EvCallThrough (statics s ''pfnGetError'') []])
         else if p \<noteq> 0
         then (Inr (Some (call_entry_point env p [])),
               s1\<lparr>statics := (statics s)(''pfnGetError'' := p)\<rparr>,
               t @ [EvCallThrough p []])
         else (Inl (if b = Debug then AssertionFailed else NullCall), s1, t)))"
proof (intro conjI ballI allI impI)
  fix ep and vals :: "'a list" and p s1 and t :: "('a, 'b) event list"
  assume ep: "ep \<in> set context_entry_points" and len: "length vals = length (ep_params ep)"
    and R: "resolve env s (ep_name ep) = (p, s1, t)"
  from resolve_trace [OF R] show "calls_through t = []"
    by simp
  from ep have "ep \<in> set context_entry_points \<or> ep \<in> set gl_entry_points"
    by simp
  from entry_point_argument_values [OF this len]
  show "context_entry_point b env ep ctx vals s =
        Some (if members ctx (ep_var ep) \<noteq> 0
              then (Inr (if ep_returns ep
                         then Some (call_entry_point env (members ctx (ep_var ep)) vals)
                         else None),
                    ctx, s, [EvCallThrough (members ctx (ep_var ep)) vals])
              else if p \<noteq> 0
              then (Inr (if ep_returns ep then Some (call_entry_point env p vals) else None),
                    ctx\<lparr>members := (members ctx)(ep_var ep := p)\<rparr>, s1,
                    t @ [EvCallThrough p vals])
              else (Inl (if b = Debug then AssertionFailed else NullCall), ctx, s1, t))"
    by (simp add: context_entry_point_def member_wrapped_exact [OF R])
next
  fix ep and vals :: "'a list" and p s1 and t :: "('a, 'b) event list"
  assume ep: "ep \<in> set gl_entry_points" and len: "length vals = length (ep_params ep)"
    and R: "resolve env s (ep_name ep) = (p, s1, t)"
  from resolve_trace [OF R] show "calls_through t = []"
    by simp
  from ep have "ep \<in> set context_entry_points \<or> ep \<in> set gl_entry_points"
    by simp
  from entry_point_argument_values [OF this len]
  show "gl_entry_point b env ep vals s =
        Some (if statics s (ep_var ep) \<noteq> 0
              then (Inr (if ep_returns ep
                         then Some (call_entry_point env (statics s (ep_var ep)) vals)
                         else None),
                    s, [EvCallThrough (statics s (ep_var ep)) vals])
              else if p \<noteq> 0
              then (Inr (if ep_returns ep then Some (call_entry_point env p vals) else None),
                    s1\<lparr>statics := (statics s)(ep_var ep := p)\<rparr>,
                    t @ [EvCallThrough p vals])
              else (Inl (if b = Debug then AssertionFailed else NullCall), s1, t))"
    by (simp add: gl_entry_point_def static_wrapped_exact [OF R])
next
  fix ep assume "ep \<in> set (context_entry_points @ gl_entry_points)"
  then have "ep \<in> set context_entry_points \<or> ep \<in> set gl_entry_points"
    by simp
  from entry_point_transcribed [OF this]
  show "ep_args ep = ep_params ep" "ep_returns ep \<longleftrightarrow> ep_type ep \<noteq> ''void''"
    by (simp_all add: transcribed_def)
next
  fix p s1 and t :: "('a, 'b) event list"
  assume R: "resolve env s ''wglCreateContext'' = (p, s1, t)"
  show "wglCreateContext b env ctx hdc s =
        (if members ctx ''m_pfnWglCreateContext'' \<noteq> 0
         then (Inr (Some (call_entry_point env (members ctx ''m_pfnWglCreateContext'') [hdc])),
               ctx, s, [EvCallThrough (members ctx ''m_pfnWglCreateContext'') [hdc]])
         else if p \<noteq> 0
         then (Inr (Some (call_entry_point env p [hdc])),
               ctx\<lparr>members := (members ctx)(''m_pfnWglCreateContext'' := p)\<rparr>, s1,
               t @ [EvCallThrough p [hdc]])
         else (Inl (if b = Debug then AssertionFailed else NullCall), ctx, s1, t))"
    by (simp add: wglCreateContext_def member_wrapped_exact [OF R])
next
  fix p s1 and t :: "('a, 'b) event list"
  assume R: "resolve env s ''glGetError'' = (p, s1, t)"
  show "glGetError b env s =
        (if statics s ''pfnGetError'' \<noteq> 0
         then (Inr (Some (call_entry_point env (statics s ''pfnGetError'') [])),
               s, [EvCallThrough (statics s ''pfnGetError'') []])
         else if p \<noteq> 0
         then (Inr (Some (call_entry_point env p [])),
               s1\<lparr>statics := (statics s)(''pfnGetError'' := p)\<rparr>,
               t @ [EvCallThrough p []])
         else (Inl (if b = Debug then AssertionFailed else NullCall), s1, t))"
    by (simp add: glGetError_def static_wrapped_exact [OF R])
qed

theorem wrappers_forward_arguments_witness:
  "\<lparr>ep_type = ''HGLRC'', ep_name = ''wglCreateContext'', ep_var = ''m_pfnWglCreateContext'',
     ep_params = [''hdc''], ep_args = [''hdc''], ep_returns = True\<rparr>
     \<in> set context_entry_points \<and>
   \<lparr>ep_type = ''void'', ep_name = ''glViewport'', ep_var = ''pfnViewport'',
     ep_params = [''x'', ''y'', ''width'', ''height''],
     ep_args = [''x'', ''y'', ''width'', ''height''], ep_returns = False\<rparr>
     \<in> set gl_entry_points \<and>
   resolve fake_driver initial_state ''wglCreateContext'' =
     (0x1000, initial_state\<lparr>theInstance := Some fake_loader\<rparr>,
      [EvLoadLibraryA ''opengl32.dll'', EvGetProcAddress 0x10000000 ''wglGetProcAddress'',
       EvResolve ''wglCreateContext'', EvExtensionQuery 0x500 ''wglCreateContext'',
       EvGetProcAddress 0x10000000 ''wglCreateContext'']) \<and>
   context_entry_point Release fake_driver
     \<lparr>ep_type = ''HGLRC'', ep_name = ''wglCreateContext'', ep_var = ''m_pfnWglCreateContext'',
      ep_params = [''hdc''], ep_args = [''hdc''], ep_returns = True\<rparr>
     new_OpenGLContext [5] initial_state =
     Some (Inr (Some 5),
           new_OpenGLContext
             \<lparr>members := (members new_OpenGLContext)(''m_pfnWglCreateContext'' := 0x1000)\<rparr>,
           initial_state\<lparr>theInstance := Some fake_loader\<rparr>,
           [EvLoadLibraryA ''opengl32.dll'', EvGetProcAddress 0x10000000 ''wglGetProcAddress'',
            EvResolve ''wglCreateContext'', EvExtensionQuery 0x500 ''wglCreateContext'',
            EvGetProcAddress 0x10000000 ''wglCreateContext'', EvCallThrough 0x1000 [5]]) \<and>
   wglCreateContext Release fake_driver new_OpenGLContext 5 initial_state =
     (Inr (Some 5),
      new_OpenGLContext
        \<lparr>members := (members new_OpenGLContext)(''m_pfnWglCreateContext'' := 0x1000)\<rparr>,
      initial_state\<lparr>theInstance := Some fake_loader\<rparr>,
      [EvLoadLibraryA ''opengl32.dll'', EvGetProcAddress 0x10000000 ''wglGetProcAddress'',
       EvResolve ''wglCreateContext'', EvExtensionQuery 0x500 ''wglCreateContext'',
       EvGetProcAddress 0x10000000 ''wglCreateContext'', EvCallThrough 0x1000 [5]]) \<and>
   gl_entry_point Debug changed_driver
     \<lparr>ep_type = ''void'', ep_name = ''glViewport'', ep_var = ''pfnViewport'',
      ep_params = [''x'', ''y'', ''width'', ''height''],
      ep_args = [''x'', ''y'', ''width'', ''height''], ep_returns = False\<rparr>
     [0, 0, 640, 480]
     (initial_state\<lparr>statics := (statics initial_state)(''pfnViewport'' := 0x5000)\<rparr>) =
     Some (Inr None,
           initial_state\<lparr>statics := (statics initial_state)(''pfnViewport'' := 0x5000)\<rparr>,
           [EvCallThrough 0x5000 [0, 0, 640, 480]]) \<and>
   glGetError Debug fake_driver initial_state =
     (Inr (Some 0),
      initial_state\<lparr>theInstance := Some fake_loader,
        statics := (statics initial_state)(''pfnGetError'' := 0x2000)\<rparr>,
      [EvLoadLibraryA ''opengl32.dll'', EvGetProcAddress 0x10000000 ''wglGetProcAddress'',
       EvResolve ''glGetError'', EvExtensionQuery 0x500 ''glGetError'',
       EvGetProcAddress 0x10000000 ''glGetError'', EvCallThrough 0x2000 []])"
proof -
  let ?c = "\<lparr>ep_type = ''HGLRC'', ep_name = ''wglCreateContext'',
     ep_var = ''m_pfnWglCreateContext'', ep_params = [''hdc''], ep_args = [''hdc''],
     ep_returns = True\<rparr>"
  let ?g = "\<lparr>ep_type = ''void'', ep_name = ''glViewport'', ep_var = ''pfnViewport'',
     ep_params = [''x'', ''y'', ''width'', ''height''],
     ep_args = [''x'', ''y'', ''width'', ''height''], ep_returns = False\<rparr>"
  let ?sv = "initial_state\<lparr>statics := (statics initial_state)(''pfnViewport'' := 0x5000)\<rparr>"
  have cmem: "?c \<in> set context_entry_points"
    by (rule written_wrappers_in_tables)
  have gmem: "?g \<in> set gl_entry_points"
    using written_wrappers_in_tables(7) by (simp add: gl_entry_points_def)
  have clen: "length [5 :: int] = length (ep_params ?c)"
    and glen: "length [0, 0, 640, 480 :: int] = length (ep_params ?g)"
    by simp_all
  have Rc: "resolve fake_driver initial_state (ep_name ?c) =
     (0x1000, initial_state\<lparr>theInstance := Some fake_loader\<rparr>,
      [EvLoadLibraryA ''opengl32.dll'', EvGetProcAddress 0x10000000 ''wglGetProcAddress'',
       EvResolve ''wglCreateContext'', EvExtensionQuery 0x500 ''wglCreateContext'',
       EvGetProcAddress 0x10000000 ''wglCreateContext''])"
    by (simp add: resolve_fresh_fake fake_extensions_def fake_exports_def)
  have Re: "resolve fake_driver initial_state ''glGetError'' =
     (0x2000, initial_state\<lparr>theInstance := Some fake_loader\<rparr>,
      [EvLoadLibraryA ''opengl32.dll'', EvGetProcAddress 0x10000000 ''wglGetProcAddress'',
       EvResolve ''glGetError'', EvExtensionQuery 0x500 ''glGetError'',
       EvGetProcAddress 0x10000000 ''glGetError''])"
    by (simp add: resolve_fresh_fake fake_extensions_def fake_exports_def)
  obtain q u v where Rg: "resolve changed_driver ?sv (ep_name ?g) = (q, u, v)"
    by (metis prod_cases3)
  have e: "members new_OpenGLContext ''m_pfnWglCreateContext'' = 0"
    "statics initial_state ''pfnGetError'' = 0"
    by (simp_all add: initial_state_def new_OpenGLContext_def)
  note table = wrappers_forward_arguments
    [where env = fake_driver and s = initial_state and b = Release
      and ctx = new_OpenGLContext and hdc = 5,
      THEN conjunct1, rule_format, OF cmem clen Rc, THEN conjunct2]
  note written = wrappers_forward_arguments
    [where env = fake_driver and s = initial_state and b = Release
      and ctx = new_OpenGLContext and hdc = 5,
      THEN conjunct2, THEN conjunct2, THEN conjunct2, THEN conjunct1, rule_format]
  note gl = wrappers_forward_arguments
    [where env = changed_driver and s = ?sv and b = Debug
      and ctx = new_OpenGLContext and hdc = 5,
      THEN conjunct2, THEN conjunct1, rule_format, OF gmem glen Rg, THEN conjunct2]
  note err = wrappers_forward_arguments
    [where env = fake_driver and s = initial_state and b = Debug
      and ctx = new_OpenGLContext and hdc = 5,
      THEN conjunct2, THEN conjunct2, THEN conjunct2, THEN conjunct2, rule_format, OF Re]
  have a: "context_entry_point Release fake_driver ?c new_OpenGLContext [5] initial_state =
     Some (Inr (Some 5),
           new_OpenGLContext
             \<lparr>members := (members new_OpenGLContext)(''m_pfnWglCreateContext'' := 0x1000)\<rparr>,
           initial_state\<lparr>theInstance := Some fake_loader\<rparr>,
           [EvLoadLibraryA ''opengl32.dll'', EvGetProcAddress 0x10000000 ''wglGetProcAddress'',
            EvResolve ''wglCreateContext'', EvExtensionQuery 0x500 ''wglCreateContext'',
            EvGetProcAddress 0x10000000 ''wglCreateContext'', EvCallThrough 0x1000 [5]])"
    using table e by (simp add: fake_driver_def)
  have b: "wglCreateContext Release fake_driver new_OpenGLContext 5 initial_state =
     (Inr (Some 5),
      new_OpenGLContext
        \<lparr>members := (members new_OpenGLContext)(''m_pfnWglCreateContext'' := 0x1000)\<rparr>,
      initial_state\<lparr>theInstance := Some fake_loader\<rparr>,
      [EvLoadLibraryA ''opengl32.dll'', EvGetProcAddress 0x10000000 ''wglGetProcAddress'',
       EvResolve ''wglCreateContext'', EvExtensionQuery 0x500 ''wglCreateContext'',
       EvGetProcAddress 0x10000000 ''wglCreateContext'', EvCallThrough 0x1000 [5]])"
    using written Rc e by (simp add: fake_driver_def)
  have c: "gl_entry_point Debug changed_driver ?g [0, 0, 640, 480] ?sv =
     Some (Inr None, ?sv, [EvCallThrough 0x5000 [0, 0, 640, 480]])"
    using gl by simp
  have d: "glGetError Debug fake_driver initial_state =
     (Inr (Some 0),
      initial_state\<lparr>theInstance := Some fake_loader,
        statics := (statics initial_state)(''pfnGetError'' := 0x2000)\<rparr>,
      [EvLoadLibraryA ''opengl32.dll'', EvGetProcAddress 0x10000000 ''wglGetProcAddress'',
       EvResolve ''glGetError'', EvExtensionQuery 0x500 ''glGetError'',
       EvGetProcAddress 0x10000000 ''glGetError'', EvCallThrough 0x2000 []])"
    using err e by (simp add: fake_driver_def)
  from cmem gmem Rc a b c d show ?thesis
    by simp
qed

text \<open>
  C5. \<^verbatim>\<open>OpenGLContext::SwapBuffers\<close> makes one call, that of \<^verbatim>\<open>::SwapBuffers\<close> of the
  windowing interface, and returns its result; the context object and the program
  state are as before, so no cache entry is read or written and the resolver is not
  entered. Every other forwarding operation of the context differs: each wrapped member
  function either enters the resolver with its own name (its pointer is empty) or calls
  through its cached pointer, and \<^verbatim>\<open>wglGetProcAddress\<close> always enters the resolver. No
  entry of the context's table carries the name \<^verbatim>\<open>SwapBuffers\<close> or the variable
  \<^verbatim>\<open>m_pfnSwapBuffers\<close>.
\<close>

theorem SwapBuffers_bypasses_resolver:
  "SwapBuffers env ctx hdc s = (gdi_SwapBuffers env hdc, ctx, s, [EvGdiSwapBuffers hdc]) \<and>
   (\<forall>ep \<in> set context_entry_points. \<forall>vals. length vals = length (ep_params ep) \<longrightarrow>
      (\<exists>out ctx' s' t.
         context_entry_point b env ep ctx vals s = Some (out, ctx', s', t) \<and>
         (if members ctx (ep_var ep) = 0 then resolved_names t = [ep_name ep]
          else resolved_names t = [] \<and>
               calls_through t = [(members ctx (ep_var ep), vals)]))) \<and>
   (case wglGetProcAddress env ctx name s of
      (p, ctx', s', t) \<Rightarrow> resolved_names t = [name]) \<and>
   ''SwapBuffers'' \<notin> set (map ep_name context_entry_points) \<and>
   ''m_pfnSwapBuffers'' \<notin> set (map ep_var context_entry_points)"
proof (intro conjI ballI allI impI)
  show "SwapBuffers env ctx hdc s = (gdi_SwapBuffers env hdc, ctx, s, [EvGdiSwapBuffers hdc])"
    by (simp add: SwapBuffers_def)
next
  fix ep and vals :: "'a list"
  assume "ep \<in> set context_entry_points" "length vals = length (ep_params ep)"
  from context_entry_point_resolves_or_cached [OF this, of b env ctx s]
  show "\<exists>out ctx' s' t.
         context_entry_point b env ep ctx vals s = Some (out, ctx', s', t) \<and>
         (if members ctx (ep_var ep) = 0 then resolved_names t = [ep_name ep]
          else resolved_names t = [] \<and>
               calls_through t = [(members ctx (ep_var ep), vals)])"
    by blast
next
  obtain L s1 u where I: "Loader_instance env s = (L, s1, u)"
    by (metis prod_cases3)
  obtain p v where G: "getProcAddress L env name = (p, v)"
    by (metis surj_pair)
  from resolved_names_Loader_instance [OF I] getProcAddress_trace [OF G] I G
  show "case wglGetProcAddress env ctx name s of
      (p, ctx', s', t) \<Rightarrow> resolved_names t = [name]"
    by (simp add: wglGetProcAddress_def resolved_names_append)
next
  show "''SwapBuffers'' \<notin> set (map ep_name context_entry_points)"
    by (simp add: context_entry_points_def)
next
  show "''m_pfnSwapBuffers'' \<notin> set (map ep_var context_entry_points)"
    by (simp add: context_entry_points_def)
qed

theorem SwapBuffers_bypasses_resolver_witness:
  "SwapBuffers fake_driver new_OpenGLContext 0x21 initial_state =
     (1, new_OpenGLContext, initial_state, [EvGdiSwapBuffers 0x21]) \<and>
   resolved_names [EvGdiSwapBuffers 0x21 :: (int, unit) event] = [] \<and>
   context_entry_points ! 8 \<in> set context_entry_points \<and>
   ep_name (context_entry_points ! 8) = ''wglMakeCurrent'' \<and>
   length [0x21, 3 :: int] = length (ep_params (context_entry_points ! 8)) \<and>
   (\<exists>out ctx' s' t.
      context_entry_point Debug fake_driver (context_entry_points ! 8) new_OpenGLContext
        [0x21, 3] initial_state = Some (out, ctx', s', t) \<and>
      resolved_names t = [''wglMakeCurrent''])"
proof -
  let ?ep = "context_entry_points ! 8"
  have ep: "?ep = \<lparr>ep_type = ''BOOL'', ep_name = ''wglMakeCurrent'',
       ep_var = ''m_pfnWglMakeCurrent'', ep_params = [''hdc'', ''hglrc''],
       ep_args = [''hdc'', ''hglrc''], ep_returns = True\<rparr>"
    by (simp add: context_entry_points_def)
  have mem: "?ep \<in> set context_entry_points"
    by (rule nth_mem) (simp add: context_entry_points_def)
  have len: "length [0x21, 3 :: int] = length (ep_params ?ep)"
    by (subst ep) simp
  have empty: "members new_OpenGLContext (ep_var ?ep) = 0"
    by (simp add: new_OpenGLContext_def)
  note inst = SwapBuffers_bypasses_resolver
    [of fake_driver new_OpenGLContext "0x21" initial_state Debug "''wglMakeCurrent''"]
  from inst have swap: "SwapBuffers fake_driver new_OpenGLContext 0x21 initial_state =
     (gdi_SwapBuffers fake_driver 0x21, new_OpenGLContext, initial_state, [EvGdiSwapBuffers 0x21])"
    by (elim conjE)
  from inst have "\<forall>ep \<in> set context_entry_points.
      \<forall>vals :: int list. length vals = length (ep_params ep) \<longrightarrow>
      (\<exists>out ctx' s' t.
         context_entry_point Debug fake_driver ep new_OpenGLContext vals initial_state =
           Some (out, ctx', s', t) \<and>
         (if members new_OpenGLContext (ep_var ep) = 0 then resolved_names t = [ep_name ep]
          else resolved_names t = [] \<and>
               calls_through t = [(members new_OpenGLContext (ep_var ep), vals)]))"
    by (elim conjE)
  from this [rule_format, OF mem len] empty have "\<exists>out ctx' s' t.
      context_entry_point Debug fake_driver ?ep new_OpenGLContext [0x21, 3] initial_state =
        Some (out, ctx', s', t) \<and> resolved_names t = [ep_name ?ep]"
    by simp
  with swap mem len ep show ?thesis
    by (simp add: fake_driver_def)
qed

section \<open>A machine without the driver library\<close>

text \<open>
  C3, as the specification states it, fails: when \<^verbatim>\<open>opengl32.dll\<close> cannot be loaded the
  resolution call proceeds and returns null to its caller, and the macro of a release
  build completes; nothing is reported and nothing ends the process in the resolver.
\<close>

theorem missing_driver_counterexample:
  "LoadLibraryA no_driver ''opengl32.dll'' = 0 \<and>
   wglGetProcAddress no_driver new_OpenGLContext ''glGetError'' initial_state =
     (0, new_OpenGLContext,
      initial_state\<lparr>theInstance := Some \<lparr>m_hLibGL = 0, m_pfnWglGetProcAddress = 0\<rparr>\<rparr>,
      [EvLoadLibraryA ''opengl32.dll'', EvResolve ''glGetError'']) \<and>
   LOAD_ENTRYPOINT Release no_driver ''glGetError'' 0 initial_state =
     (None, 0,
      initial_state\<lparr>theInstance := Some \<lparr>m_hLibGL = 0, m_pfnWglGetProcAddress = 0\<rparr>\<rparr>,
      [EvLoadLibraryA ''opengl32.dll'', EvResolve ''glGetError''])"
  by (simp add: wglGetProcAddress_def LOAD_ENTRYPOINT_def Loader_instance_def Loader_ctor_def
      getProcAddress_def no_driver_def initial_state_def Let_def)

text \<open>
  C3, amended. When the driver library cannot be loaded, or does not export the
  extension-query function, the loader is constructed all the same, with a null
  extension-query pointer; the first resolution returns null after the constructor's
  library calls, every later one returns null without any native call, and
  \<^verbatim>\<open>OpenGLContext::wglGetProcAddress\<close> hands that null to its caller. The process ends
  only in a per-symbol wrapper: by the failed assertion in a debug build, by the call
  through the null pointer in a release build.
\<close>

theorem missing_driver_resolves_to_null:
  assumes "LoadLibraryA env ''opengl32.dll'' = 0 \<or>
           GetProcAddress env (LoadLibraryA env ''opengl32.dll'') ''wglGetProcAddress'' = 0"
    and "theInstance s = None"
  shows "m_pfnWglGetProcAddress (fst (Loader_ctor env)) = 0 \<and>
         wglGetProcAddress env ctx name s =
           (0, ctx, s\<lparr>theInstance := Some (fst (Loader_ctor env))\<rparr>,
            snd (Loader_ctor env) @ [EvResolve name]) \<and>
         wglGetProcAddress env' ctx name' (s\<lparr>theInstance := Some (fst (Loader_ctor env))\<rparr>) =
           (0, ctx, s\<lparr>theInstance := Some (fst (Loader_ctor env))\<rparr>, [EvResolve name']) \<and>
         wrapped Debug env name returns args 0 s =
           (Inl AssertionFailed, 0, s\<lparr>theInstance := Some (fst (Loader_ctor env))\<rparr>,
            snd (Loader_ctor env) @ [EvResolve name]) \<and>
         wrapped Release env name returns args 0 s =
           (Inl NullCall, 0, s\<lparr>theInstance := Some (fst (Loader_ctor env))\<rparr>,
            snd (Loader_ctor env) @ [EvResolve name])"
proof -
  let ?L = "fst (Loader_ctor env)"
  have null: "m_pfnWglGetProcAddress ?L = 0"
    by (rule Loader_ctor_null_query [OF assms(1)])
  have I: "Loader_instance env s = (?L, s\<lparr>theInstance := Some ?L\<rparr>, snd (Loader_ctor env))"
    by (rule Loader_instance_fresh [OF assms(2)])
  have I': "Loader_instance env' (s\<lparr>theInstance := Some ?L\<rparr>) = (?L, s\<lparr>theInstance := Some ?L\<rparr>, [])"
    by (rule Loader_instance_held) simp
  from null I I' show ?thesis
    by (simp add: wglGetProcAddress_def wrapped_def LOAD_ENTRYPOINT_def call_through_def
        getProcAddress_null_query [OF null])
qed

theorem missing_driver_resolves_to_null_witness:
  "(LoadLibraryA no_driver ''opengl32.dll'' = 0 \<or>
    GetProcAddress no_driver (LoadLibraryA no_driver ''opengl32.dll'') ''wglGetProcAddress'' = 0) \<and>
   theInstance initial_state = None \<and>
   fst (wglGetProcAddress no_driver new_OpenGLContext ''glGetError'' initial_state) = 0 \<and>
   fst (wrapped Debug no_driver ''glGetError'' True [] 0 initial_state) = Inl AssertionFailed \<and>
   fst (wrapped Release no_driver ''glGetError'' True [] 0 initial_state) = Inl NullCall"
proof -
  have a: "LoadLibraryA no_driver ''opengl32.dll'' = 0 \<or>
    GetProcAddress no_driver (LoadLibraryA no_driver ''opengl32.dll'') ''wglGetProcAddress'' = 0"
    by (simp add: no_driver_def)
  have b: "theInstance initial_state = None"
    by (simp add: initial_state_def)
  from missing_driver_resolves_to_null [OF a b, of new_OpenGLContext "''glGetError''" no_driver "''glGetError''" True "[]"]
    a b show ?thesis
    by simp
qed

end
